theory Spec2Isabelle
  imports Main
begin

section \<open>Python values and library functions used by filter_ssm_documents.py\<close>

text \<open>
  A Python \<open>str\<close> is modelled as a \<open>string\<close>; a \<open>char\<close> stands for one code
  point (the code points below 256). The newline is code point 10 and the colon is
  \<open>CHR '':''\<close>.
\<close>

definition newline :: char where
  "newline = CHR 0x0A"

text \<open>
  \<open>str.isspace\<close> on one character: the code points below 256 that Python counts as
  whitespace are 9 to 13, 28 to 31, 32, 133 and 160.
\<close>

definition isspace :: "char \<Rightarrow> bool" where
  "isspace c = ((of_char c :: nat) \<in> set [9, 10, 11, 12, 13, 28, 29, 30, 31, 32, 133, 160])"

text \<open>\<open>str.strip()\<close>: removes leading and trailing whitespace.\<close>

definition strip :: "string \<Rightarrow> string" where
  "strip s = rev (dropWhile isspace (rev (dropWhile isspace s)))"

text \<open>
  The exceptions the program can meet, all subclasses of \<open>Exception\<close>.
  \<open>FileNotFoundError\<close> is a subclass of \<open>OSError\<close>, and \<open>IOError\<close> is another
  name of \<open>OSError\<close>; \<open>OSError\<close> below stands for every other operating system
  error. \<open>ClientError\<close> carries the error code of its response.
  \<open>OtherException\<close> stands for every exception class the program does not name.
\<close>

datatype exn =
    FileNotFoundError
  | OSError
  | NoCredentialsError
  | PartialCredentialsError
  | ClientError string
  | JSONDecodeError
  | TypeError
  | KeyError
  | OtherException

fun is_IOError :: "exn \<Rightarrow> bool" where
  "is_IOError FileNotFoundError = True"
| "is_IOError OSError = True"
| "is_IOError _ = False"

text \<open>
  The values \<open>json.loads\<close> builds. A float is a finite binary fraction
  (mantissa and exponent), an infinity or a NaN; \<open>JNull\<close> is Python's \<open>None\<close>;
  a \<open>dict\<close> is an association list read by \<open>map_of\<close>.
\<close>

datatype pyfloat = Finite int int | Infinity bool | NaN

datatype json =
    JNull
  | JBool bool
  | JInt int
  | JFloat pyfloat
  | JStr string
  | JArr "json list"
  | JObj "(string \<times> json) list"

text \<open>Truth value of a Python object, as \<open>if x:\<close> and \<open>not x\<close> test it.\<close>

fun truthy :: "json \<Rightarrow> bool" where
  "truthy JNull = False"
| "truthy (JBool b) = b"
| "truthy (JInt i) = (i \<noteq> 0)"
| "truthy (JFloat (Finite m e)) = (m \<noteq> 0)"
| "truthy (JFloat _) = True"
| "truthy (JStr s) = (s \<noteq> [])"
| "truthy (JArr xs) = (xs \<noteq> [])"
| "truthy (JObj kvs) = (kvs \<noteq> [])"

text \<open>\<open>d.get(key, default)\<close> and \<open>d.get(key)\<close>, whose default is \<open>None\<close>.\<close>

definition dict_get_default :: "(string \<times> json) list \<Rightarrow> string \<Rightarrow> json \<Rightarrow> json" where
  "dict_get_default d k dflt = (case map_of d k of None \<Rightarrow> dflt | Some v \<Rightarrow> v)"

definition dict_get :: "(string \<times> json) list \<Rightarrow> string \<Rightarrow> json" where
  "dict_get d k = dict_get_default d k JNull"

text \<open>
  What \<open>for step in x\<close> iterates over: the elements of a list, the keys of a dict,
  the characters of a string; \<open>None\<close>, a bool and a number are not iterable and the
  loop raises \<open>TypeError\<close>.
\<close>

fun iterate :: "json \<Rightarrow> exn + json list" where
  "iterate (JArr xs) = Inr xs"
| "iterate (JObj kvs) = Inr (map (\<lambda>kv. JStr (fst kv)) kvs)"
| "iterate (JStr s) = Inr (map (\<lambda>c. JStr [c]) s)"
| "iterate _ = Inl TypeError"

text \<open>
  \<open>x in xs\<close> for a list \<open>xs\<close> of strings: \<open>x\<close> equals an element only when it is
  a string itself.
\<close>

fun py_in :: "json \<Rightarrow> string list \<Rightarrow> bool" where
  "py_in (JStr s) xs = (s \<in> set xs)"
| "py_in _ xs = False"

subsection \<open>The fragment of \<open>re\<close> that \<open>ARN_REGEX\<close> uses\<close>

text \<open>
  A pattern is a sequence of literals and named groups; a group holds one character
  class under a greedy quantifier. \<open>NoneOf cs\<close> is the class of the characters not
  in \<open>cs\<close>: \<open>[^:]\<close> is \<open>NoneOf '':''\<close>, and the dot, which matches every character
  but the newline, is \<open>NoneOf [newline]\<close>.
\<close>

datatype char_class = NoneOf string

datatype quantifier = Plus | Star

datatype rx = Lit string | Group string char_class quantifier

fun in_class :: "char_class \<Rightarrow> char \<Rightarrow> bool" where
  "in_class (NoneOf cs) c = (c \<notin> set cs)"

fun min_count :: "quantifier \<Rightarrow> nat" where
  "min_count Plus = 1"
| "min_count Star = 0"

text \<open>The first candidate, in the order given, on which \<open>f\<close> succeeds.\<close>

fun first_some :: "('a \<Rightarrow> 'b option) \<Rightarrow> 'a list \<Rightarrow> 'b option" where
  "first_some f [] = None"
| "first_some f (x # xs) = (case f x of Some y \<Rightarrow> Some y | None \<Rightarrow> first_some f xs)"

text \<open>
  \<open>pattern.match(s)\<close>: the pattern is matched at the start of \<open>s\<close> and need not
  reach its end. A greedy group takes the longest run of its class first and gives
  characters back one at a time while the rest of the pattern fails. The result is the
  list of the groups matched, the last one first.
\<close>

fun re_match :: "rx list \<Rightarrow> string \<Rightarrow> (string \<times> string) list \<Rightarrow> (string \<times> string) list option" where
  "re_match [] s groups = Some groups"
| "re_match (Lit l # rs) s groups =
     (if take (length l) s = l then re_match rs (drop (length l) s) groups else None)"
| "re_match (Group nm cls q # rs) s groups =
     first_some (\<lambda>n. re_match rs (drop n s) ((nm, take n s) # groups))
       (rev [min_count q ..< Suc (length (takeWhile (in_class cls) s))])"

section \<open>ARN parsing\<close>

definition ARN_REGEX :: "rx list" where
  "ARN_REGEX =
     [Lit ''arn:aws:ssm:'', Group ''region'' (NoneOf '':'') Plus,
      Lit '':'', Group ''account_id'' (NoneOf '':'') Plus,
      Lit '':document/'', Group ''name'' (NoneOf [newline]) Star]"

definition parse_arn :: "string \<Rightarrow> string option \<times> string option" where
  "parse_arn arn_string =
     (case re_match ARN_REGEX arn_string [] of
        Some groups \<Rightarrow> (map_of groups ''region'', map_of groups ''name'')
      | None \<Rightarrow> (None, None))"

section \<open>The environment of a run\<close>

text \<open>
  A client of the remote service is the object \<open>boto3.client('ssm', region_name=region)\<close>
  returns; it is identified by the region it was built for.
\<close>

datatype ssm_client = SSM_Client string

text \<open>
  Everything outside the program: whether the \<open>boto3\<close> import succeeded, the two files,
  the remote service and \<open>json.loads\<close>. A call either raises (\<open>Inl\<close>) or returns.
  \<open>read_lines path\<close> is \<open>open(path, 'r')\<close> followed by the iteration over the lines of
  the file; \<open>write_text path text\<close> is \<open>open(path, 'w')\<close> followed by the writes that
  put \<open>text\<close> into the file, and gives the exception raised, if any;
  \<open>get_document client name\<close> is the value of \<open>response.get('Content')\<close> in the
  response to \<open>client.get_document(Name=name, DocumentFormat='JSON')\<close>. The remote
  service answers the same call the same way throughout a run.
\<close>

record environment =
  BOTO3_AVAILABLE :: bool
  read_lines :: "string \<Rightarrow> exn + string list"
  write_text :: "string \<Rightarrow> string \<Rightarrow> exn option"
  boto3_client :: "string \<Rightarrow> exn + ssm_client"
  get_document :: "ssm_client \<Rightarrow> string \<Rightarrow> exn + string option"
  json_loads :: "string \<Rightarrow> exn + json"

text \<open>
  What a run does that can be observed from outside, in the order it happens: the
  records it logs and the calls it makes to the remote service. A message is one of
  the format strings of the script with the values it is filled with.
\<close>

datatype level = DEBUG | INFO | WARNING | ERROR | CRITICAL

datatype message =
    Boto3_not_installed
  | Starting_filtering
  | Input_file string
  | Output_file string
  | Runtimes_to_check "string list"
  | Input_file_not_found string
  | Input_file_is_empty
  | Could_not_write_empty_output string exn
  | Processing_ARN string
  | Could_not_parse_ARN string
  | Initializing_client string
  | Credentials_not_found
  | Client_init_ClientError string exn
  | Client_init_unexpected string exn
  | Found_outdated_document string
  | Could_not_write_output string exn
  | Filtering_complete
  | Processed_documents nat
  | Found_documents nat
  | List_saved string
  | Document_no_content string
  | Document_not_found_or_invalid string
  | ClientError_fetching string exn
  | Failed_to_parse_JSON string
  | Unexpected_fetch_error string exn
  | Found_outdated_runtime json json

datatype event =
    Log level message
  | Call_boto3_client string
  | Call_get_document ssm_client string

section \<open>Core logic\<close>

subsection \<open>\<open>get_document_content\<close>\<close>

text \<open>The three \<open>except\<close> clauses of \<open>get_document_content\<close>, in their order.\<close>

fun except_get_document_content :: "string \<Rightarrow> exn \<Rightarrow> event list" where
  "except_get_document_content document_name (ClientError code) =
     (if code = ''InvalidDocument''
      then [Log WARNING (Document_not_found_or_invalid document_name)]
      else [Log ERROR (ClientError_fetching document_name (ClientError code))])"
| "except_get_document_content document_name JSONDecodeError =
     [Log ERROR (Failed_to_parse_JSON document_name)]"
| "except_get_document_content document_name e =
     [Log ERROR (Unexpected_fetch_error document_name e)]"

text \<open>
  The result is the decoded content, or \<open>None\<close> (\<open>JNull\<close>) when the document has no
  content or any exception was raised, together with the events of the call.
\<close>

definition get_document_content :: "environment \<Rightarrow> ssm_client \<Rightarrow> string \<Rightarrow> json \<times> event list" where
  "get_document_content env client document_name =
     (case get_document env client document_name of
        Inl e \<Rightarrow>
          (JNull, Call_get_document client document_name # except_get_document_content document_name e)
      | Inr None \<Rightarrow>
          (JNull, [Call_get_document client document_name,
                   Log WARNING (Document_no_content document_name)])
      | Inr (Some content_str) \<Rightarrow>
          (if content_str = []
           then (JNull, [Call_get_document client document_name,
                         Log WARNING (Document_no_content document_name)])
           else (case json_loads env content_str of
                   Inl e \<Rightarrow>
                     (JNull, Call_get_document client document_name #
                             except_get_document_content document_name e)
                 | Inr content \<Rightarrow> (content, [Call_get_document client document_name]))))"

subsection \<open>\<open>has_outdated_python_runtime\<close>\<close>

text \<open>\<open>isinstance(x, dict)\<close>\<close>

fun is_dict :: "json \<Rightarrow> bool" where
  "is_dict (JObj d) = True"
| "is_dict _ = False"

text \<open>
  The body of the \<open>for step in ...\<close> loop, over the steps still to visit. The loop
  returns at the first step that matches, after logging it.
\<close>

fun steps_loop :: "json list \<Rightarrow> string list \<Rightarrow> bool \<times> event list" where
  "steps_loop [] old_runtimes_list = (False, [])"
| "steps_loop (step # steps) old_runtimes_list =
     (case step of
        JObj d \<Rightarrow>
          (if dict_get d ''action'' = JStr ''aws:executeScript'' then
             (case dict_get_default d ''inputs'' (JObj []) of
                JObj inputs \<Rightarrow>
                  (if py_in (dict_get inputs ''Runtime'') old_runtimes_list
                   then (True, [Log DEBUG (Found_outdated_runtime (dict_get inputs ''Runtime'')
                                  (dict_get_default d ''name'' (JStr ''UnnamedStep'')))])
                   else steps_loop steps old_runtimes_list)
              | _ \<Rightarrow> steps_loop steps old_runtimes_list)
           else steps_loop steps old_runtimes_list)
      | _ \<Rightarrow> steps_loop steps old_runtimes_list)"

text \<open>
  The function returns a boolean and the records it has logged, or raises: the
  \<open>for\<close> statement raises \<open>TypeError\<close> when the value of \<open>mainSteps\<close> is not
  iterable.
\<close>

definition has_outdated_python_runtime :: "json \<Rightarrow> string list \<Rightarrow> exn + bool \<times> event list" where
  "has_outdated_python_runtime document_content old_runtimes_list =
     (if \<not> truthy document_content \<or> \<not> is_dict document_content then Inr (False, [])
      else (case document_content of
              JObj d \<Rightarrow>
                (case iterate (dict_get_default d ''mainSteps'' (JArr [])) of
                   Inl e \<Rightarrow> Inl e
                 | Inr steps \<Rightarrow> Inr (steps_loop steps old_runtimes_list))
            | _ \<Rightarrow> Inr (False, [])))"

subsection \<open>\<open>filter_ssm_documents\<close>\<close>

text \<open>
  The local variables of \<open>filter_ssm_documents\<close> that the loop updates, and the
  events of the run so far.
\<close>

record loop_state =
  filtered_arns :: "string list"
  processed_count :: nat
  found_count :: nat
  ssm_clients :: "string \<rightharpoonup> ssm_client"
  trace :: "event list"

text \<open>
  How a piece of the function body ends: it falls through to the next statement or
  iteration, it executes \<open>return\<close>, or an exception leaves the function.
\<close>

datatype control = Continue loop_state | Return bool loop_state | Raise exn loop_state

text \<open>The events \<open>evs\<close> happen.\<close>

definition emit :: "loop_state \<Rightarrow> event list \<Rightarrow> loop_state" where
  "emit st evs = st\<lparr>trace := trace st @ evs\<rparr>"

text \<open>The \<open>try\<close> block of the loop: the client of the region is built unless cached.\<close>

definition try_client :: "environment \<Rightarrow> string \<Rightarrow> loop_state \<Rightarrow> exn \<times> loop_state + loop_state" where
  "try_client env region st =
     (if ssm_clients st region = None then
        (case boto3_client env region of
           Inl e \<Rightarrow>
             Inl (e, emit st [Log DEBUG (Initializing_client region), Call_boto3_client region])
         | Inr client \<Rightarrow>
             Inr ((emit st [Log DEBUG (Initializing_client region), Call_boto3_client region])
                    \<lparr>ssm_clients := (ssm_clients st)(region \<mapsto> client)\<rparr>))
      else Inr st)"

text \<open>
  The statements after the \<open>try\<close>: the document is fetched with the client of the
  region and, when its content is truthy, classified. \<open>ssm_clients[region]\<close> raises
  \<open>KeyError\<close> for a region that is not cached. An exception of the classifier is not
  caught.
\<close>

definition classify_document ::
  "environment \<Rightarrow> string list \<Rightarrow> string \<Rightarrow> string \<Rightarrow> string \<Rightarrow> loop_state \<Rightarrow> control" where
  "classify_document env old_runtimes_list arn region doc_name st =
     (case ssm_clients st region of
        None \<Rightarrow> Raise KeyError st
      | Some client \<Rightarrow>
          (case get_document_content env client doc_name of
             (document_content, fetched) \<Rightarrow>
               (if truthy document_content then
                  (case has_outdated_python_runtime document_content old_runtimes_list of
                     Inl e \<Rightarrow> Raise e (emit st fetched)
                   | Inr (outdated, found) \<Rightarrow>
                       (if outdated then
                          Continue ((emit st (fetched @ found @ [Log INFO (Found_outdated_document arn)]))
                            \<lparr>filtered_arns := filtered_arns st @ [arn],
                             found_count := found_count st + 1\<rparr>)
                        else Continue (emit st (fetched @ found))))
                else Continue (emit st fetched))))"

text \<open>The \<open>except\<close> clauses after the \<open>try\<close> block, in their order.\<close>

fun except_client :: "string \<Rightarrow> exn \<Rightarrow> loop_state \<Rightarrow> control" where
  "except_client region NoCredentialsError st =
     Return False (emit st [Log ERROR Credentials_not_found])"
| "except_client region PartialCredentialsError st =
     Return False (emit st [Log ERROR Credentials_not_found])"
| "except_client region (ClientError code) st =
     Continue (emit st [Log ERROR (Client_init_ClientError region (ClientError code))])"
| "except_client region e st =
     Continue (emit st [Log ERROR (Client_init_unexpected region e)])"

text \<open>One iteration of \<open>for arn in arns_to_process\<close>.\<close>

definition loop_body :: "environment \<Rightarrow> string list \<Rightarrow> string \<Rightarrow> loop_state \<Rightarrow> control" where
  "loop_body env old_runtimes_list arn st0 =
     (let st = (emit st0 [Log DEBUG (Processing_ARN arn)])\<lparr>processed_count := processed_count st0 + 1\<rparr>
      in case parse_arn arn of
           (Some region, Some doc_name) \<Rightarrow>
             (if region = [] \<or> doc_name = []
              then Continue (emit st [Log WARNING (Could_not_parse_ARN arn)])
              else (case try_client env region st of
                      Inl (e, st1) \<Rightarrow> except_client region e st1
                    | Inr st1 \<Rightarrow> classify_document env old_runtimes_list arn region doc_name st1))
         | _ \<Rightarrow> Continue (emit st [Log WARNING (Could_not_parse_ARN arn)]))"

text \<open>The \<open>for\<close> loop over the lines still to process.\<close>

fun for_arns :: "environment \<Rightarrow> string list \<Rightarrow> string list \<Rightarrow> loop_state \<Rightarrow> control" where
  "for_arns env old_runtimes_list [] st = Continue st"
| "for_arns env old_runtimes_list (arn # arns) st =
     (case loop_body env old_runtimes_list arn st of
        Continue st1 \<Rightarrow> for_arns env old_runtimes_list arns st1
      | Return b st1 \<Rightarrow> Return b st1
      | Raise e st1 \<Rightarrow> Raise e st1)"

text \<open>
  The result of a run: the value returned or the exception that left the function,
  the text of the output file when the run wrote it (\<open>None\<close> when it did not open the
  file or a write failed), and the events in their order.
\<close>

datatype outcome = Returned bool | Raised exn

record run =
  outcome :: outcome
  written :: "string option"
  run_trace :: "event list"

text \<open>What the writes of the last loop put into the file: each ARN and a newline.\<close>

definition output_text :: "string list \<Rightarrow> string" where
  "output_text arns = concat (map (\<lambda>arn_to_write. arn_to_write @ [newline]) arns)"

text \<open>\<open>[line.strip() for line in f_in if line.strip()]\<close>\<close>

definition arns_to_process :: "string list \<Rightarrow> string list" where
  "arns_to_process lines = map strip (filter (\<lambda>line. strip line \<noteq> []) lines)"

text \<open>The four records logged before the input file is opened.\<close>

definition starting :: "string \<Rightarrow> string \<Rightarrow> string list \<Rightarrow> event list" where
  "starting input_file output_file old_runtimes_list =
     [Log INFO Starting_filtering, Log INFO (Input_file input_file),
      Log INFO (Output_file output_file), Log INFO (Runtimes_to_check old_runtimes_list)]"

text \<open>
  The end of the function, after the loop: the output file is written, with its
  \<open>except IOError\<close> clause, and the summary is logged.
\<close>

definition write_filtered :: "environment \<Rightarrow> string \<Rightarrow> loop_state \<Rightarrow> run" where
  "write_filtered env output_file st =
     (case write_text env output_file (output_text (filtered_arns st)) of
        None \<Rightarrow>
          \<lparr>outcome = Returned True, written = Some (output_text (filtered_arns st)),
           run_trace = trace st @
             [Log INFO Filtering_complete, Log INFO (Processed_documents (processed_count st)),
              Log INFO (Found_documents (found_count st)), Log INFO (List_saved output_file)]\<rparr>
      | Some e \<Rightarrow>
          (if is_IOError e
           then \<lparr>outcome = Returned False, written = None,
                 run_trace = trace st @ [Log ERROR (Could_not_write_output output_file e)]\<rparr>
           else \<lparr>outcome = Raised e, written = None, run_trace = trace st\<rparr>))"

text \<open>
  The branch for an input without ARNs, after its info record: the output file is
  opened for writing and closed, with its \<open>except IOError\<close> clause.
\<close>

definition write_empty :: "environment \<Rightarrow> string \<Rightarrow> event list \<Rightarrow> run" where
  "write_empty env output_file tr =
     (case write_text env output_file [] of
        None \<Rightarrow> \<lparr>outcome = Returned True, written = Some [], run_trace = tr\<rparr>
      | Some e \<Rightarrow>
          (if is_IOError e
           then \<lparr>outcome = Returned False, written = None,
                 run_trace = tr @ [Log ERROR (Could_not_write_empty_output output_file e)]\<rparr>
           else \<lparr>outcome = Raised e, written = None, run_trace = tr\<rparr>))"

text \<open>
  The function. Only \<open>FileNotFoundError\<close> is caught around the reading of the input
  file; any other exception leaves the function.
\<close>

definition filter_ssm_documents :: "environment \<Rightarrow> string \<Rightarrow> string \<Rightarrow> string list \<Rightarrow> run" where
  "filter_ssm_documents env input_file output_file old_runtimes_list =
     (if \<not> BOTO3_AVAILABLE env
      then \<lparr>outcome = Returned False, written = None,
            run_trace = [Log CRITICAL Boto3_not_installed]\<rparr>
      else (case read_lines env input_file of
              Inl e \<Rightarrow>
                (if e = FileNotFoundError
                 then \<lparr>outcome = Returned False, written = None,
                       run_trace = starting input_file output_file old_runtimes_list @
                         [Log ERROR (Input_file_not_found input_file)]\<rparr>
                 else \<lparr>outcome = Raised e, written = None,
                       run_trace = starting input_file output_file old_runtimes_list\<rparr>)
            | Inr lines \<Rightarrow>
                (if arns_to_process lines = []
                 then write_empty env output_file
                        (starting input_file output_file old_runtimes_list @
                           [Log INFO Input_file_is_empty])
                 else (case for_arns env old_runtimes_list (arns_to_process lines)
                              \<lparr>filtered_arns = [], processed_count = 0, found_count = 0,
                               ssm_clients = Map.empty,
                               trace = starting input_file output_file old_runtimes_list\<rparr> of
                         Continue st \<Rightarrow> write_filtered env output_file st
                       | Return b st \<Rightarrow>
                           \<lparr>outcome = Returned b, written = None, run_trace = trace st\<rparr>
                       | Raise e st \<Rightarrow>
                           \<lparr>outcome = Raised e, written = None, run_trace = trace st\<rparr>))))"

section \<open>Notions the properties are stated with\<close>

subsection \<open>ARNs\<close>

text \<open>
  The documented shape of an ARN of an SSM document. A segment (the region, the
  account id) is not empty and holds no colon.
\<close>

definition arn_text :: "string \<Rightarrow> string \<Rightarrow> string \<Rightarrow> string" where
  "arn_text region account name =
     ''arn:aws:ssm:'' @ region @ '':'' @ account @ '':document/'' @ name"

definition segment :: "string \<Rightarrow> bool" where
  "segment x = (x \<noteq> [] \<and> CHR '':'' \<notin> set x)"

text \<open>
  The region and the document name the driver works with for an input line: those
  \<open>parse_arn\<close> returns, unless one of them is \<open>None\<close> or empty, which the driver
  treats as a line it could not parse.
\<close>

definition arn_target :: "string \<Rightarrow> (string \<times> string) option" where
  "arn_target arn =
     (case parse_arn arn of
        (Some region, Some doc_name) \<Rightarrow>
          (if region = [] \<or> doc_name = [] then None else Some (region, doc_name))
      | _ \<Rightarrow> None)"

definition arn_region :: "string \<Rightarrow> string option" where
  "arn_region arn = map_option fst (arn_target arn)"

subsection \<open>Steps\<close>

text \<open>
  A qualifying step, in the words of the specification: an object whose \<open>action\<close> is
  the literal \<open>aws:executeScript\<close> and whose \<open>inputs.Runtime\<close> is a string of the
  denylist.
\<close>

fun qualifying_step :: "string list \<Rightarrow> json \<Rightarrow> bool" where
  "qualifying_step denylist (JObj step) =
     (map_of step ''action'' = Some (JStr ''aws:executeScript'') \<and>
      (case map_of step ''inputs'' of
         Some (JObj inputs) \<Rightarrow>
           (case map_of inputs ''Runtime'' of
              Some (JStr runtime) \<Rightarrow> runtime \<in> set denylist
            | _ \<Rightarrow> False)
       | _ \<Rightarrow> False))"
| "qualifying_step denylist _ = False"

text \<open>The debug record the classifier logs for the step it stops at.\<close>

fun found_events :: "json \<Rightarrow> event list" where
  "found_events (JObj step) =
     (case dict_get_default step ''inputs'' (JObj []) of
        JObj inputs \<Rightarrow>
          [Log DEBUG (Found_outdated_runtime (dict_get inputs ''Runtime'')
             (dict_get_default step ''name'' (JStr ''UnnamedStep'')))]
      | _ \<Rightarrow> [])"
| "found_events _ = []"

subsection \<open>States of the loop\<close>

text \<open>The state a piece of the function body ends in, however it ends.\<close>

fun state_of :: "control \<Rightarrow> loop_state" where
  "state_of (Continue st) = st"
| "state_of (Return b st) = st"
| "state_of (Raise e st) = st"

text \<open>The state at the start of an iteration, after the counter and the debug record.\<close>

definition entered :: "string \<Rightarrow> loop_state \<Rightarrow> loop_state" where
  "entered arn st = (emit st [Log DEBUG (Processing_ARN arn)])\<lparr>processed_count := processed_count st + 1\<rparr>"

text \<open>
  The state \<open>filter_ssm_documents\<close> enters the loop with, and what it does with the
  way the loop ends.
\<close>

definition initial_state :: "event list \<Rightarrow> loop_state" where
  "initial_state tr =
     \<lparr>filtered_arns = [], processed_count = 0, found_count = 0, ssm_clients = Map.empty, trace = tr\<rparr>"

definition finish :: "environment \<Rightarrow> string \<Rightarrow> control \<Rightarrow> run" where
  "finish env output_file c =
     (case c of
        Continue st \<Rightarrow> write_filtered env output_file st
      | Return b st \<Rightarrow> \<lparr>outcome = Returned b, written = None, run_trace = trace st\<rparr>
      | Raise e st \<Rightarrow> \<lparr>outcome = Raised e, written = None, run_trace = trace st\<rparr>)"

subsection \<open>What happens to one input line\<close>

text \<open>
  The fate of one input line, read off the environment alone: the line is malformed;
  the construction of the client of its region fails for want of credentials, or for
  another reason; the fetch raises; the document has no content; the body does not
  decode; the classifier raises; the document is fetched and is, or is not, outdated
  (a content that is not truthy is not classified and counts as not outdated).
\<close>

fun is_credentials_error :: "exn \<Rightarrow> bool" where
  "is_credentials_error NoCredentialsError = True"
| "is_credentials_error PartialCredentialsError = True"
| "is_credentials_error _ = False"

datatype item_result =
    Malformed
  | Credentials_missing
  | Client_failed exn
  | Fetch_failed exn
  | No_content
  | Decode_failed exn
  | Classifier_raised exn
  | Not_outdated
  | Outdated

definition document_result :: "environment \<Rightarrow> string list \<Rightarrow> ssm_client \<Rightarrow> string \<Rightarrow> item_result" where
  "document_result env denylist client doc_name =
     (case get_document env client doc_name of
        Inl e \<Rightarrow> Fetch_failed e
      | Inr None \<Rightarrow> No_content
      | Inr (Some body) \<Rightarrow>
          (if body = [] then No_content
           else (case json_loads env body of
                   Inl e \<Rightarrow> Decode_failed e
                 | Inr content \<Rightarrow>
                     (if \<not> truthy content then Not_outdated
                      else (case has_outdated_python_runtime content denylist of
                              Inl e \<Rightarrow> Classifier_raised e
                            | Inr (outdated, found) \<Rightarrow>
                                (if outdated then Outdated else Not_outdated))))))"

definition item_result :: "environment \<Rightarrow> string list \<Rightarrow> string \<Rightarrow> item_result" where
  "item_result env denylist arn =
     (case arn_target arn of
        None \<Rightarrow> Malformed
      | Some (region, doc_name) \<Rightarrow>
          (case boto3_client env region of
             Inl e \<Rightarrow> (if is_credentials_error e then Credentials_missing else Client_failed e)
           | Inr client \<Rightarrow> document_result env denylist client doc_name))"

text \<open>
  The per-item failures: a malformed ARN, a client construction that fails without
  being a credentials failure, a fetch that raises, a body that does not decode.
\<close>

fun per_item_failure :: "item_result \<Rightarrow> bool" where
  "per_item_failure Malformed = True"
| "per_item_failure (Client_failed e) = True"
| "per_item_failure (Fetch_failed e) = True"
| "per_item_failure (Decode_failed e) = True"
| "per_item_failure _ = False"

text \<open>The two fates that end the loop before the remaining lines are processed.\<close>

fun stops :: "item_result \<Rightarrow> bool" where
  "stops Credentials_missing = True"
| "stops (Classifier_raised e) = True"
| "stops _ = False"

subsection \<open>The client cache and the remote calls\<close>

text \<open>
  The cache is consistent with the remote service when every client it holds is the
  one the service builds for that region.
\<close>

definition cache_ok :: "environment \<Rightarrow> (string \<rightharpoonup> ssm_client) \<Rightarrow> bool" where
  "cache_ok env cache = (\<forall>region client. cache region = Some client \<longrightarrow> boto3_client env region = Inr client)"

text \<open>
  What the cache discipline asks of one iteration: the cache afterwards, and the
  remote calls made, given the cache before. A client is built only for a region that
  is not cached, it is cached only when the construction succeeds, and the fetch goes
  to the client of the region.
\<close>

definition item_cache :: "environment \<Rightarrow> (string \<rightharpoonup> ssm_client) \<Rightarrow> string \<Rightarrow> (string \<rightharpoonup> ssm_client)" where
  "item_cache env cache arn =
     (case arn_target arn of
        None \<Rightarrow> cache
      | Some (region, doc_name) \<Rightarrow>
          (case cache region of
             Some client \<Rightarrow> cache
           | None \<Rightarrow>
               (case boto3_client env region of
                  Inl e \<Rightarrow> cache
                | Inr client \<Rightarrow> cache(region \<mapsto> client))))"

definition item_calls :: "environment \<Rightarrow> (string \<rightharpoonup> ssm_client) \<Rightarrow> string \<Rightarrow> event list" where
  "item_calls env cache arn =
     (case arn_target arn of
        None \<Rightarrow> []
      | Some (region, doc_name) \<Rightarrow>
          (case cache region of
             Some client \<Rightarrow> [Call_get_document client doc_name]
           | None \<Rightarrow>
               (case boto3_client env region of
                  Inl e \<Rightarrow> [Call_boto3_client region]
                | Inr client \<Rightarrow> [Call_boto3_client region, Call_get_document client doc_name])))"

text \<open>
  The remote calls among the events of a run, and the number of times the client of a
  region was constructed.
\<close>

fun is_call :: "event \<Rightarrow> bool" where
  "is_call (Log lvl msg) = False"
| "is_call _ = True"

definition remote_calls :: "event list \<Rightarrow> event list" where
  "remote_calls tr = filter is_call tr"

definition constructions :: "string \<Rightarrow> event list \<Rightarrow> nat" where
  "constructions region tr = count_list tr (Call_boto3_client region)"

fun cached :: "ssm_client option \<Rightarrow> nat" where
  "cached None = 0"
| "cached (Some client) = 1"

text \<open>
  Two environments answer alike for an input line when, for the region and the
  document the line names, the construction of the client gives the same result and
  the client built answers the fetch the same way.
\<close>

definition same_answers :: "environment \<Rightarrow> environment \<Rightarrow> string \<Rightarrow> bool" where
  "same_answers env1 env2 arn =
     (case arn_target arn of
        None \<Rightarrow> True
      | Some (region, doc_name) \<Rightarrow>
          boto3_client env1 region = boto3_client env2 region \<and>
          (case boto3_client env1 region of
             Inl e \<Rightarrow> True
           | Inr client \<Rightarrow> get_document env1 client doc_name = get_document env2 client doc_name))"

section \<open>Concrete inputs\<close>

text \<open>The constants of the script.\<close>

definition DEFAULT_OLD_RUNTIMES :: "string list" where
  "DEFAULT_OLD_RUNTIMES = [''python3.9'', ''python3.8'', ''python3.7'', ''python3.6'', ''python2.7'']"

definition DEFAULT_INPUT_FILENAME :: string where
  "DEFAULT_INPUT_FILENAME = ''ssm_automations_to_update.txt''"

definition DEFAULT_OUTPUT_FILENAME :: string where
  "DEFAULT_OUTPUT_FILENAME = ''ssm_automations_filtered.txt''"

text \<open>Steps and documents, decoded and as the text of a response.\<close>

definition script_step :: "string \<Rightarrow> json" where
  "script_step runtime =
     JObj [(''action'', JStr ''aws:executeScript''), (''inputs'', JObj [(''Runtime'', JStr runtime)])]"

definition sleep_step :: json where
  "sleep_step = JObj [(''name'', JStr ''pause''), (''action'', JStr ''aws:sleep'')]"

definition document_of :: "json list \<Rightarrow> json" where
  "document_of steps = JObj [(''schemaVersion'', JStr ''0.3''), (''mainSteps'', JArr steps)]"

definition quoted :: "string \<Rightarrow> string" where
  "quoted s = CHR 0x22 # s @ [CHR 0x22]"

definition script_document_body :: "string \<Rightarrow> string" where
  "script_document_body runtime =
     ''{'' @ quoted ''mainSteps'' @ '':[{'' @ quoted ''action'' @ '':'' @ quoted ''aws:executeScript'' @
     '','' @ quoted ''inputs'' @ '':{'' @ quoted ''Runtime'' @ '':'' @ quoted runtime @ ''}}]}''"

definition null_steps_body :: string where
  "null_steps_body = ''{'' @ quoted ''mainSteps'' @ '':null}''"

text \<open>\<open>json.loads\<close> on the bodies used below; any other text is not JSON here.\<close>

definition demo_loads :: "string \<Rightarrow> exn + json" where
  "demo_loads body =
     (if body = script_document_body ''python3.7''
        then Inr (JObj [(''mainSteps'', JArr [script_step ''python3.7''])])
      else if body = script_document_body ''python3.11''
        then Inr (JObj [(''mainSteps'', JArr [script_step ''python3.11''])])
      else if body = null_steps_body
        then Inr (JObj [(''mainSteps'', JNull)])
      else Inl JSONDecodeError)"

text \<open>
  A remote service: no client can be built for \<open>eu-west-1\<close>; \<open>MyDoc\<close> runs a script
  on \<open>python3.7\<close>, \<open>NewDoc\<close> on \<open>python3.11\<close>, the body of \<open>Broken\<close> is not JSON and
  every other document is unknown.
\<close>

definition demo_client :: "string \<Rightarrow> exn + ssm_client" where
  "demo_client region =
     (if region = ''eu-west-1'' then Inl (ClientError ''EndpointConnectionError'')
      else Inr (SSM_Client region))"

definition demo_get_document :: "ssm_client \<Rightarrow> string \<Rightarrow> exn + string option" where
  "demo_get_document client name =
     (if name = ''MyDoc'' then Inr (Some (script_document_body ''python3.7''))
      else if name = ''NewDoc'' then Inr (Some (script_document_body ''python3.11''))
      else if name = ''Broken'' then Inr (Some ''{not json'')
      else Inl (ClientError ''InvalidDocument''))"

text \<open>Remote services without credentials, at the construction and at the fetch.\<close>

definition no_credentials_client :: "string \<Rightarrow> exn + ssm_client" where
  "no_credentials_client region = Inl NoCredentialsError"

definition no_credentials_get_document :: "ssm_client \<Rightarrow> string \<Rightarrow> exn + string option" where
  "no_credentials_get_document client name = Inl NoCredentialsError"

text \<open>A remote service whose every document has \<open>null\<close> for \<open>mainSteps\<close>.\<close>

definition null_steps_get_document :: "ssm_client \<Rightarrow> string \<Rightarrow> exn + string option" where
  "null_steps_get_document client name = Inr (Some null_steps_body)"

text \<open>
  An environment with \<open>boto3\<close> installed: the input file of the default name holds
  the given lines, every write to the output file ends with the given exception (or
  succeeds), and the remote service is the given one.
\<close>

definition scenario ::
  "string list \<Rightarrow> (string \<Rightarrow> exn + ssm_client) \<Rightarrow> (ssm_client \<Rightarrow> string \<Rightarrow> exn + string option) \<Rightarrow>
   exn option \<Rightarrow> environment" where
  "scenario lines client fetch write_error =
     \<lparr>BOTO3_AVAILABLE = True,
      read_lines = (\<lambda>path. if path = ''ssm_automations_to_update.txt'' then Inr lines
                           else Inl FileNotFoundError),
      write_text = (\<lambda>path text. write_error),
      boto3_client = client,
      get_document = fetch,
      json_loads = demo_loads\<rparr>"

text \<open>Input lines, as read from the file: each ends with its newline.\<close>

definition line_of :: "string \<Rightarrow> string" where
  "line_of arn = arn @ [newline]"

definition my_doc_arn :: string where
  "my_doc_arn = ''arn:aws:ssm:us-east-1:123456789012:document/MyDoc''"

definition new_doc_arn :: string where
  "new_doc_arn = ''arn:aws:ssm:us-east-1:123456789012:document/NewDoc''"

definition eu_doc_arn :: string where
  "eu_doc_arn = ''arn:aws:ssm:eu-west-1:123456789012:document/MyDoc''"

definition missing_doc_arn :: string where
  "missing_doc_arn = ''arn:aws:ssm:us-east-1:123456789012:document/team/Missing''"

definition broken_doc_arn :: string where
  "broken_doc_arn = ''arn:aws:ssm:us-west-2:123456789012:document/Broken''"

definition nameless_arn :: string where
  "nameless_arn = arn_text ''us-east-1'' ''123456789012'' []"

definition demo_lines :: "string list" where
  "demo_lines =
     [line_of my_doc_arn, [newline], line_of ''not-an-arn'', ''  '' @ line_of new_doc_arn,
      line_of eu_doc_arn, line_of missing_doc_arn, line_of my_doc_arn, line_of broken_doc_arn,
      eu_doc_arn]"

definition twice_lines :: "string list" where
  "twice_lines = [line_of my_doc_arn, line_of my_doc_arn]"

definition nameless_lines :: "string list" where
  "nameless_lines = [line_of nameless_arn, line_of my_doc_arn]"

definition blank_lines :: "string list" where
  "blank_lines = [[newline], ''   '' @ [newline], [CHR 0x09]]"

definition three_lines :: "string list" where
  "three_lines = [line_of ''not-an-arn'', line_of my_doc_arn, line_of new_doc_arn]"

definition demo_env :: environment where
  "demo_env = scenario demo_lines demo_client demo_get_document None"

text \<open>
  A second environment, which answers like \<open>demo_env\<close> for every region and document
  of \<open>demo_lines\<close> and differently elsewhere.
\<close>

definition other_client :: "string \<Rightarrow> exn + ssm_client" where
  "other_client region =
     (if region = ''ap-south-1'' then Inl OtherException else demo_client region)"

definition other_get_document :: "ssm_client \<Rightarrow> string \<Rightarrow> exn + string option" where
  "other_get_document client name =
     (if name = ''Unlisted'' then Inr None else demo_get_document client name)"

definition other_env :: environment where
  "other_env = scenario demo_lines other_client other_get_document None"

section \<open>The ARN parser\<close>

lemma first_some_None: "(\<And>x. x \<in> set xs \<Longrightarrow> f x = None) \<Longrightarrow> first_some f xs = None"
  by (induction xs) auto

lemma first_some_greedy:
  assumes "k \<le> m" and "\<And>n. k \<le> n \<Longrightarrow> n < m \<Longrightarrow> f n = None"
  shows "first_some f (rev [k ..< Suc m]) = f m"
proof -
  have "first_some f (rev [k ..< m]) = None"
    using assms(2) by (intro first_some_None) auto
  then show ?thesis using assms(1) by (simp split: option.splits)
qed

lemma drop_in_takeWhile:
  assumes "n < length (takeWhile P s)"
  shows "\<exists>c t. drop n s = c # t \<and> P c"
proof -
  have n: "n < length s" using assms length_takeWhile_le[of P s] by simp
  have "P (s ! n)" using assms
    by (metis nth_mem set_takeWhileD takeWhile_nth)
  moreover have "drop n s = s ! n # drop (Suc n) s" using n by (simp add: Cons_nth_drop_Suc)
  ultimately show ?thesis by blast
qed

lemma take_length_takeWhile: "take (length (takeWhile P s)) s = takeWhile P s"
  by (induction s) auto

lemma drop_length_takeWhile: "drop (length (takeWhile P s)) s = dropWhile P s"
  by (induction s) auto

lemma re_match_colon_group:
  "re_match (Group nm (NoneOf '':'') Plus # Lit (CHR '':'' # l) # rs) s groups =
     (if takeWhile (\<lambda>c. c \<noteq> CHR '':'') s = [] then None
      else re_match (Lit (CHR '':'' # l) # rs) (dropWhile (\<lambda>c. c \<noteq> CHR '':'') s)
             ((nm, takeWhile (\<lambda>c. c \<noteq> CHR '':'') s) # groups))"
proof -
  let ?P = "\<lambda>c. c \<noteq> CHR '':''"
  let ?m = "length (takeWhile ?P s)"
  let ?f = "\<lambda>n. re_match (Lit (CHR '':'' # l) # rs) (drop n s) ((nm, take n s) # groups)"
  have cls: "in_class (NoneOf '':'') = ?P" by (rule ext) simp
  have short: "?f n = None" if lt: "n < ?m" for n
  proof -
    obtain c t where "drop n s = c # t" "c \<noteq> CHR '':''"
      using drop_in_takeWhile[OF lt] by blast
    then show ?thesis by simp
  qed
  show ?thesis
  proof (cases "takeWhile ?P s = []")
    case True
    then show ?thesis by (simp add: cls)
  next
    case False
    then have "1 \<le> ?m" by (cases "takeWhile ?P s") auto
    then have "first_some ?f (rev [1 ..< Suc ?m]) = ?f ?m"
      using short by (intro first_some_greedy) auto
    then show ?thesis using False
      by (simp add: cls take_length_takeWhile drop_length_takeWhile del: re_match.simps(2))
  qed
qed

lemma re_match_last_group:
  "re_match [Group nm cls Star] s groups = Some ((nm, takeWhile (in_class cls) s) # groups)"
  by (simp add: take_length_takeWhile)

lemma re_match_Lit_append: "re_match (Lit l # rs) (l @ t) groups = re_match rs t groups"
  by simp

lemma re_match_Lit_Some:
  assumes "re_match (Lit l # rs) s groups = Some g"
  obtains t where "s = l @ t" and "re_match rs t groups = Some g"
proof -
  from assms have tk: "take (length l) s = l" and m: "re_match rs (drop (length l) s) groups = Some g"
    by (auto split: if_splits)
  have "s = l @ drop (length l) s" using tk by (metis append_take_drop_id)
  with m that show thesis by blast
qed

lemma parse_arn_complete:
  assumes "segment r" "segment a" "newline \<notin> set n" "rest = [] \<or> hd rest = newline"
  shows "parse_arn (arn_text r a n @ rest) = (Some r, Some n)"
proof -
  let ?P = "\<lambda>c. c \<noteq> CHR '':''"
  have tw: "takeWhile ?P (x @ CHR '':'' # y) = x" "dropWhile ?P (x @ CHR '':'' # y) = CHR '':'' # y"
    if "CHR '':'' \<notin> set x" for x y
    using that by (induction x) auto
  have "takeWhile (\<lambda>c. c \<noteq> newline) rest = []"
    using assms(4) by (cases rest) auto
  then have nm: "takeWhile (\<lambda>c. c \<noteq> newline) (n @ rest) = n"
    using assms(3) by (induction n) auto
  have cls: "in_class (NoneOf [newline]) = (\<lambda>c. c \<noteq> newline)" by (rule ext) simp
  let ?t3 = "[Group ''name'' (NoneOf [newline]) Star]"
  let ?t2 = "Group ''account_id'' (NoneOf '':'') Plus # Lit '':document/'' # ?t3"
  let ?t1 = "Group ''region'' (NoneOf '':'') Plus # Lit '':'' # ?t2"
  have cr: "CHR '':'' \<notin> set r" "r \<noteq> []" and ca: "CHR '':'' \<notin> set a" "a \<noteq> []"
    using assms(1,2) by (simp_all add: segment_def)
  have e3: "re_match ?t3 (n @ rest) G = Some ((''name'', n) # G)" for G
    by (simp only: re_match_last_group cls nm)
  have e2: "re_match ?t2 (a @ '':document/'' @ n @ rest) G =
              Some ((''name'', n) # (''account_id'', a) # G)" for G
    using e3 by (simp add: re_match_colon_group tw[OF ca(1)] ca(2) del: re_match.simps(3))
  have e1: "re_match ?t1 (r @ '':'' @ a @ '':document/'' @ n @ rest) G =
              Some ((''name'', n) # (''account_id'', a) # (''region'', r) # G)" for G
    using e2 by (simp add: re_match_colon_group tw[OF cr(1)] cr(2) del: re_match.simps(3))
  have "re_match ARN_REGEX (arn_text r a n @ rest) [] =
          Some [(''name'', n), (''account_id'', a), (''region'', r)]"
    using e1[of "[]"] by (simp add: ARN_REGEX_def arn_text_def del: re_match.simps(3))
  then show ?thesis by (simp add: parse_arn_def)
qed

lemma parse_arn_sound:
  assumes "re_match ARN_REGEX s [] = Some g"
  obtains r a n rest where "s = arn_text r a n @ rest" "segment r" "segment a"
    "newline \<notin> set n" "rest = [] \<or> hd rest = newline"
    "g = [(''name'', n), (''account_id'', a), (''region'', r)]"
proof -
  let ?P = "\<lambda>c. c \<noteq> CHR '':''"
  let ?Q = "\<lambda>c. c \<noteq> newline"
  have cls: "in_class (NoneOf [newline]) = ?Q" by (rule ext) simp
  from assms obtain s1 where s: "s = ''arn:aws:ssm:'' @ s1"
    and m1: "re_match [Group ''region'' (NoneOf '':'') Plus,
      Lit '':'', Group ''account_id'' (NoneOf '':'') Plus,
      Lit '':document/'', Group ''name'' (NoneOf [newline]) Star] s1 [] = Some g"
    unfolding ARN_REGEX_def by (rule re_match_Lit_Some)
  let ?r = "takeWhile ?P s1"
  from m1 have r: "?r \<noteq> []"
    and m2: "re_match [Lit '':'', Group ''account_id'' (NoneOf '':'') Plus,
      Lit '':document/'', Group ''name'' (NoneOf [newline]) Star] (dropWhile ?P s1) [(''region'', ?r)] = Some g"
    unfolding re_match_colon_group by (auto split: if_splits)
  from m2 obtain s2 where d1: "dropWhile ?P s1 = '':'' @ s2"
    and m3: "re_match [Group ''account_id'' (NoneOf '':'') Plus,
      Lit '':document/'', Group ''name'' (NoneOf [newline]) Star] s2 [(''region'', ?r)] = Some g"
    by (rule re_match_Lit_Some)
  let ?a = "takeWhile ?P s2"
  from m3 have a: "?a \<noteq> []"
    and m4: "re_match [Lit '':document/'', Group ''name'' (NoneOf [newline]) Star]
       (dropWhile ?P s2) [(''account_id'', ?a), (''region'', ?r)] = Some g"
    unfolding re_match_colon_group by (auto split: if_splits)
  from m4 obtain s3 where d2: "dropWhile ?P s2 = '':document/'' @ s3"
    and m5: "re_match [Group ''name'' (NoneOf [newline]) Star] s3
       [(''account_id'', ?a), (''region'', ?r)] = Some g"
    by (rule re_match_Lit_Some)
  from m5 have g: "g = [(''name'', takeWhile ?Q s3), (''account_id'', ?a), (''region'', ?r)]"
    unfolding re_match_last_group cls by simp
  have "s1 = ?r @ dropWhile ?P s1" by simp
  moreover have "s2 = ?a @ dropWhile ?P s2" by simp
  moreover have "s3 = takeWhile ?Q s3 @ dropWhile ?Q s3" by simp
  ultimately have shape: "s = arn_text ?r ?a (takeWhile ?Q s3) @ dropWhile ?Q s3"
    unfolding arn_text_def using s d1 d2 by (metis append_assoc)
  have segr: "segment ?r" using r unfolding segment_def by (auto dest: set_takeWhileD)
  have sega: "segment ?a" using a unfolding segment_def by (auto dest: set_takeWhileD)
  have nn: "newline \<notin> set (takeWhile ?Q s3)" by (auto dest: set_takeWhileD)
  have rest: "dropWhile ?Q s3 = [] \<or> hd (dropWhile ?Q s3) = newline"
    using hd_dropWhile[of ?Q s3] by auto
  from shape segr sega nn rest g that show thesis by blast
qed

lemma parse_arn_arn_text:
  assumes "segment r" "segment a"
  shows "parse_arn (arn_text r a t) = (Some r, Some (takeWhile (\<lambda>c. c \<noteq> newline) t))"
proof -
  let ?Q = "\<lambda>c. c \<noteq> newline"
  have "newline \<notin> set (takeWhile ?Q t)" by (auto dest: set_takeWhileD)
  moreover have "dropWhile ?Q t = [] \<or> hd (dropWhile ?Q t) = newline"
    using hd_dropWhile[of ?Q t] by auto
  ultimately have "parse_arn (arn_text r a (takeWhile ?Q t) @ dropWhile ?Q t) =
      (Some r, Some (takeWhile ?Q t))"
    using assms by (intro parse_arn_complete)
  moreover have "arn_text r a (takeWhile ?Q t) @ dropWhile ?Q t = arn_text r a t"
    by (simp add: arn_text_def)
  ultimately show ?thesis by simp
qed

text \<open>
  Claim C4, as amended. For every string, \<open>parse_arn\<close> either returns the pair
  \<open>(region, name)\<close> where the whole string is
  \<open>arn:aws:ssm:<region>:<account-id>:document/<rest>\<close>, with region and account id
  not empty and free of colons, and the name is \<open>rest\<close> up to its first newline
  character: all of \<open>rest\<close>, to the end of the string, when \<open>rest\<close> holds no newline
  (slashes and colons allowed, the empty name too); or the string has no such shape
  and \<open>parse_arn\<close> returns \<open>(None, None)\<close>. \<open>parse_arn\<close> is a total function: it never
  raises.
\<close>

theorem parse_arn_shape:
  "(\<exists>region account rest. segment region \<and> segment account \<and>
        s = arn_text region account rest \<and>
        parse_arn s = (Some region, Some (takeWhile (\<lambda>c. c \<noteq> newline) rest)) \<and>
        (newline \<notin> set rest \<longrightarrow> parse_arn s = (Some region, Some rest)))
   \<or> ((\<forall>region account rest. segment region \<and> segment account \<longrightarrow> s \<noteq> arn_text region account rest)
        \<and> parse_arn s = (None, None))"
proof (cases "re_match ARN_REGEX s []")
  case None
  then have f: "parse_arn s = (None, None)" by (simp add: parse_arn_def)
  have "s \<noteq> arn_text r a t" if "segment r" "segment a" for r a t
    using parse_arn_arn_text[OF that, of t] f by auto
  then show ?thesis using f by blast
next
  case (Some g)
  then obtain r a n rest where *: "s = arn_text r a n @ rest" "segment r" "segment a"
    by (rule parse_arn_sound)
  have s: "s = arn_text r a (n @ rest)" using *(1) by (simp add: arn_text_def)
  have p: "parse_arn s = (Some r, Some (takeWhile (\<lambda>c. c \<noteq> newline) (n @ rest)))"
    unfolding s using *(2,3) by (rule parse_arn_arn_text)
  have "newline \<notin> set (n @ rest) \<longrightarrow> parse_arn s = (Some r, Some (n @ rest))"
  proof
    assume "newline \<notin> set (n @ rest)"
    then have "takeWhile (\<lambda>c. c \<noteq> newline) (n @ rest) = n @ rest"
      by (intro takeWhile_eq_all_conv[THEN iffD2]) auto
    then show "parse_arn s = (Some r, Some (n @ rest))" using p by simp
  qed
  then show ?thesis using s p *(2,3) by blast
qed

theorem parse_arn_shape_witness:
  "((\<exists>region account rest. segment region \<and> segment account \<and>
        my_doc_arn = arn_text region account rest \<and>
        parse_arn my_doc_arn = (Some region, Some (takeWhile (\<lambda>c. c \<noteq> newline) rest)) \<and>
        (newline \<notin> set rest \<longrightarrow> parse_arn my_doc_arn = (Some region, Some rest)))
    \<or> ((\<forall>region account rest. segment region \<and> segment account \<longrightarrow> my_doc_arn \<noteq> arn_text region account rest)
         \<and> parse_arn my_doc_arn = (None, None)))
   \<and> segment ''us-east-1'' \<and> segment ''123456789012''
   \<and> my_doc_arn = arn_text ''us-east-1'' ''123456789012'' ''MyDoc''
   \<and> newline \<notin> set ''MyDoc''
   \<and> parse_arn my_doc_arn = (Some ''us-east-1'', Some ''MyDoc'')
   \<and> parse_arn (arn_text ''us-east-1'' ''123456789012'' ''team/My:Doc'') =
       (Some ''us-east-1'', Some ''team/My:Doc'')
   \<and> parse_arn (arn_text (''us'' @ [newline] @ ''east'') ''123456789012'' ''MyDoc'') =
       (Some (''us'' @ [newline] @ ''east''), Some ''MyDoc'')
   \<and> parse_arn (arn_text ''us-east-1'' ''123456789012'' (''My'' @ [newline] @ ''Doc'')) =
       (Some ''us-east-1'', Some ''My'')
   \<and> parse_arn ''not-an-arn'' = (None, None)
   \<and> parse_arn (''x'' @ my_doc_arn) = (None, None)
   \<and> parse_arn (arn_text [] ''123456789012'' ''MyDoc'') = (None, None)"
proof -
  have v: "segment ''us-east-1''" "segment ''123456789012''"
    "my_doc_arn = arn_text ''us-east-1'' ''123456789012'' ''MyDoc''"
    "newline \<notin> set ''MyDoc''"
    "parse_arn my_doc_arn = (Some ''us-east-1'', Some ''MyDoc'')"
    "parse_arn (arn_text ''us-east-1'' ''123456789012'' ''team/My:Doc'') =
       (Some ''us-east-1'', Some ''team/My:Doc'')"
    "parse_arn (arn_text (''us'' @ [newline] @ ''east'') ''123456789012'' ''MyDoc'') =
       (Some (''us'' @ [newline] @ ''east''), Some ''MyDoc'')"
    "parse_arn (arn_text ''us-east-1'' ''123456789012'' (''My'' @ [newline] @ ''Doc'')) =
       (Some ''us-east-1'', Some ''My'')"
    "parse_arn ''not-an-arn'' = (None, None)"
    "parse_arn (''x'' @ my_doc_arn) = (None, None)"
    "parse_arn (arn_text [] ''123456789012'' ''MyDoc'') = (None, None)"
    by (simp_all add: segment_def my_doc_arn_def arn_text_def parse_arn_def ARN_REGEX_def
          newline_def upt_rec)
  show ?thesis using v parse_arn_shape[of my_doc_arn] by blast
qed

text \<open>
  Claim C4 as stated fails on a string with a newline in its name part: the pattern is
  matched at the start of the string only and the dot stops at the newline, so
  \<open>parse_arn\<close> returns the part of the name before the newline although the string
  goes on. The name returned does not extend to the end of the string, and a string
  that deviates from the shape of the pair returned is not rejected.
\<close>

theorem parse_arn_partial_counterexample:
  "parse_arn (arn_text ''us-east-1'' ''123456789012'' (''My'' @ [newline] @ ''Doc'')) =
     (Some ''us-east-1'', Some ''My'')
   \<and> arn_text ''us-east-1'' ''123456789012'' (''My'' @ [newline] @ ''Doc'') \<noteq>
       arn_text ''us-east-1'' ''123456789012'' ''My''"
  by (simp add: parse_arn_def ARN_REGEX_def arn_text_def newline_def upt_rec)

section \<open>The classifier\<close>

lemma dict_get_JStr_iff: "(dict_get d k = JStr x) = (map_of d k = Some (JStr x))"
  by (simp add: dict_get_def dict_get_default_def split: option.split)

lemma py_in_dict_get:
  "py_in (dict_get i k) dl = (case map_of i k of Some (JStr r) \<Rightarrow> r \<in> set dl | _ \<Rightarrow> False)"
  by (simp add: dict_get_def dict_get_default_def split: option.split json.split)

lemma steps_loop_JObj:
  "steps_loop (JObj d # ss) dl =
     (if qualifying_step dl (JObj d) then (True, found_events (JObj d)) else steps_loop ss dl)"
proof (cases "map_of d ''action'' = Some (JStr ''aws:executeScript'')")
  case False
  then show ?thesis by (simp add: dict_get_JStr_iff)
next
  case True
  show ?thesis
  proof (cases "map_of d ''inputs''")
    case None
    then show ?thesis using True
      by (simp add: dict_get_JStr_iff dict_get_default_def py_in_dict_get)
  next
    case (Some v)
    then show ?thesis using True
      by (cases v) (simp_all add: dict_get_JStr_iff dict_get_default_def py_in_dict_get)
  qed
qed

lemma steps_loop_Cons:
  "steps_loop (s # ss) dl =
     (if qualifying_step dl s then (True, found_events s) else steps_loop ss dl)"
proof (cases s)
  case (JObj d)
  then show ?thesis by (simp only: steps_loop_JObj)
qed simp_all

lemma found_events_single:
  assumes "qualifying_step dl s"
  shows "\<exists>runtime name. runtime \<in> set dl \<and>
           found_events s = [Log DEBUG (Found_outdated_runtime (JStr runtime) name)]"
proof -
  from assms obtain d where s: "s = JObj d" by (cases s) auto
  from assms s obtain i where inp: "map_of d ''inputs'' = Some (JObj i)"
    by (auto split: option.splits json.splits)
  from assms s inp obtain r where r: "map_of i ''Runtime'' = Some (JStr r)" "r \<in> set dl"
    by (auto split: option.splits json.splits)
  show ?thesis using s inp r
    by (simp add: dict_get_default_def dict_get_def)
qed

lemma steps_loop_no_match:
  "(\<And>s. s \<in> set ss \<Longrightarrow> \<not> qualifying_step dl s) \<Longrightarrow> steps_loop ss dl = (False, [])"
  by (induction ss) (simp_all add: steps_loop_Cons del: steps_loop.simps(2))

lemma steps_loop_fst: "fst (steps_loop ss dl) = (\<exists>s\<in>set ss. qualifying_step dl s)"
  by (induction ss) (simp_all add: steps_loop_Cons del: steps_loop.simps(2))

lemma has_outdated_True_iff:
  "(\<exists>found. has_outdated_python_runtime c dl = Inr (True, found)) \<longleftrightarrow>
   (\<exists>d steps. c = JObj d \<and> map_of d ''mainSteps'' = Some (JArr steps) \<and>
      (\<exists>s\<in>set steps. qualifying_step dl s))"
proof (cases c)
  case (JObj d)
  show ?thesis
  proof (cases "map_of d ''mainSteps''")
    case None
    then show ?thesis using JObj
      by (auto simp: has_outdated_python_runtime_def dict_get_default_def)
  next
    case (Some m)
    have ne: "d \<noteq> []" using Some by auto
    show ?thesis
    proof (cases m)
      case (JArr steps)
      have "has_outdated_python_runtime c dl = Inr (steps_loop steps dl)"
        using JObj Some JArr ne by (simp add: has_outdated_python_runtime_def dict_get_default_def)
      moreover have "(\<exists>found. steps_loop steps dl = (True, found)) = (\<exists>s\<in>set steps. qualifying_step dl s)"
        using steps_loop_fst[of steps dl] by (cases "steps_loop steps dl") auto
      ultimately show ?thesis using JObj Some JArr by simp
    next
      case (JObj kvs)
      have "steps_loop (map (\<lambda>kv. JStr (fst kv)) kvs) dl = (False, [])"
        by (rule steps_loop_no_match) auto
      then show ?thesis using \<open>c = JObj d\<close> Some JObj ne
        by (simp add: has_outdated_python_runtime_def dict_get_default_def)
    next
      case (JStr t)
      have "steps_loop (map (\<lambda>c. JStr [c]) t) dl = (False, [])"
        by (rule steps_loop_no_match) auto
      then show ?thesis using \<open>c = JObj d\<close> Some JStr ne
        by (simp add: has_outdated_python_runtime_def dict_get_default_def)
    qed (use \<open>c = JObj d\<close> Some ne in \<open>simp_all add: has_outdated_python_runtime_def dict_get_default_def\<close>)
  qed
qed (simp_all add: has_outdated_python_runtime_def)

lemma has_outdated_no_mainSteps:
  "map_of d ''mainSteps'' = None \<Longrightarrow> has_outdated_python_runtime (JObj d) dl = Inr (False, [])"
  by (simp add: has_outdated_python_runtime_def dict_get_default_def)

lemma has_outdated_array:
  "map_of d ''mainSteps'' = Some (JArr steps) \<Longrightarrow>
   has_outdated_python_runtime (JObj d) dl = Inr (steps_loop steps dl)"
  by (auto simp: has_outdated_python_runtime_def dict_get_default_def)

lemma has_outdated_not_dict:
  "\<not> is_dict c \<Longrightarrow> has_outdated_python_runtime c dl = Inr (False, [])"
  by (simp add: has_outdated_python_runtime_def)

lemma steps_loop_first_match:
  assumes "qualifying_step dl s" "\<And>p. p \<in> set pre \<Longrightarrow> \<not> qualifying_step dl p"
  shows "steps_loop (pre @ s # rest) dl = (True, found_events s)"
  using assms(2) by (induction pre) (simp_all add: steps_loop_Cons assms(1) del: steps_loop.simps(2))

text \<open>
  Claim C1. \<open>has_outdated_python_runtime\<close> returns \<open>True\<close> exactly when the content
  is an object whose \<open>mainSteps\<close> is an array with a qualifying step: an object whose
  \<open>action\<close> is \<open>aws:executeScript\<close> and whose \<open>inputs.Runtime\<close> is a string of the
  denylist. It returns \<open>False\<close> for a missing content, for a content that is not an
  object, when \<open>mainSteps\<close> is absent, and when no step of the array qualifies (another
  action, a \<open>Runtime\<close> that is absent or not in the denylist). It returns at the first
  qualifying step: whatever steps follow, the result is \<open>True\<close> and the only record
  logged is the one of that step.
\<close>

theorem classifier_verdict:
  "((\<exists>found. has_outdated_python_runtime content denylist = Inr (True, found)) \<longleftrightarrow>
      (\<exists>d steps. content = JObj d \<and> map_of d ''mainSteps'' = Some (JArr steps) \<and>
         (\<exists>step\<in>set steps. qualifying_step denylist step)))
   \<and> has_outdated_python_runtime JNull denylist = Inr (False, [])
   \<and> (\<not> is_dict content \<longrightarrow> has_outdated_python_runtime content denylist = Inr (False, []))
   \<and> (map_of doc ''mainSteps'' = None \<longrightarrow>
        has_outdated_python_runtime (JObj doc) denylist = Inr (False, []))
   \<and> (map_of doc ''mainSteps'' = Some (JArr steps) \<and> (\<forall>step\<in>set steps. \<not> qualifying_step denylist step) \<longrightarrow>
        has_outdated_python_runtime (JObj doc) denylist = Inr (False, []))
   \<and> (map_of doc ''mainSteps'' = Some (JArr (before @ step # rest)) \<and>
        qualifying_step denylist step \<and> (\<forall>p\<in>set before. \<not> qualifying_step denylist p) \<longrightarrow>
        has_outdated_python_runtime (JObj doc) denylist = Inr (True, found_events step) \<and>
        length (found_events step) = 1)"
proof (intro conjI impI)
  show "(\<exists>found. has_outdated_python_runtime content denylist = Inr (True, found)) \<longleftrightarrow>
      (\<exists>d steps. content = JObj d \<and> map_of d ''mainSteps'' = Some (JArr steps) \<and>
         (\<exists>step\<in>set steps. qualifying_step denylist step))"
    by (rule has_outdated_True_iff)
  show "has_outdated_python_runtime JNull denylist = Inr (False, [])"
    by (simp add: has_outdated_python_runtime_def)
  show "has_outdated_python_runtime content denylist = Inr (False, [])" if "\<not> is_dict content"
    using that by (rule has_outdated_not_dict)
  show "has_outdated_python_runtime (JObj doc) denylist = Inr (False, [])"
    if "map_of doc ''mainSteps'' = None"
    using that by (rule has_outdated_no_mainSteps)
  show "has_outdated_python_runtime (JObj doc) denylist = Inr (False, [])"
    if "map_of doc ''mainSteps'' = Some (JArr steps) \<and> (\<forall>step\<in>set steps. \<not> qualifying_step denylist step)"
    using that by (simp add: has_outdated_array steps_loop_no_match)
  assume *: "map_of doc ''mainSteps'' = Some (JArr (before @ step # rest)) \<and>
        qualifying_step denylist step \<and> (\<forall>p\<in>set before. \<not> qualifying_step denylist p)"
  then show "has_outdated_python_runtime (JObj doc) denylist = Inr (True, found_events step)"
    by (simp add: has_outdated_array steps_loop_first_match)
  from * show "length (found_events step) = 1"
    using found_events_single[of denylist step] by auto
qed

theorem classifier_verdict_witness:
  "has_outdated_python_runtime
      (document_of [sleep_step, script_step ''python3.11'', script_step ''python3.7'', script_step ''python2.7''])
      DEFAULT_OLD_RUNTIMES =
     Inr (True, [Log DEBUG (Found_outdated_runtime (JStr ''python3.7'') (JStr ''UnnamedStep''))])
   \<and> qualifying_step DEFAULT_OLD_RUNTIMES (script_step ''python3.7'')
   \<and> \<not> qualifying_step DEFAULT_OLD_RUNTIMES sleep_step
   \<and> \<not> qualifying_step DEFAULT_OLD_RUNTIMES (script_step ''python3.11'')
   \<and> \<not> is_dict (JArr [script_step ''python3.7''])
   \<and> has_outdated_python_runtime (JArr [script_step ''python3.7'']) DEFAULT_OLD_RUNTIMES = Inr (False, [])
   \<and> has_outdated_python_runtime (JObj [(''schemaVersion'', JStr ''0.3'')]) DEFAULT_OLD_RUNTIMES = Inr (False, [])
   \<and> has_outdated_python_runtime (document_of [sleep_step, script_step ''python3.11'']) DEFAULT_OLD_RUNTIMES
        = Inr (False, [])"
proof -
  have q: "qualifying_step DEFAULT_OLD_RUNTIMES (script_step ''python3.7'')"
    "\<not> qualifying_step DEFAULT_OLD_RUNTIMES sleep_step"
    "\<not> qualifying_step DEFAULT_OLD_RUNTIMES (script_step ''python3.11'')"
    by (simp_all add: DEFAULT_OLD_RUNTIMES_def script_step_def sleep_step_def)
  have f: "found_events (script_step ''python3.7'') =
             [Log DEBUG (Found_outdated_runtime (JStr ''python3.7'') (JStr ''UnnamedStep''))]"
    by (simp add: script_step_def dict_get_default_def dict_get_def)
  have nd: "\<not> is_dict (JArr [script_step ''python3.7''])" by simp
  have m1: "map_of [(''schemaVersion'', JStr ''0.3''), (''mainSteps'', JArr xs)] ''mainSteps'' = Some (JArr xs)" for xs
    by simp
  have m0: "map_of [(''schemaVersion'', JStr ''0.3'')] ''mainSteps'' = None" by simp
  note t1 = classifier_verdict[where denylist = DEFAULT_OLD_RUNTIMES
      and content = "JArr [script_step ''python3.7'']"
      and doc = "[(''schemaVersion'', JStr ''0.3''), (''mainSteps'',
                   JArr ([sleep_step, script_step ''python3.11''] @ script_step ''python3.7'' # [script_step ''python2.7'']))]"
      and before = "[sleep_step, script_step ''python3.11'']" and step = "script_step ''python3.7''"
      and rest = "[script_step ''python2.7'']"]
  note t2 = classifier_verdict[where denylist = DEFAULT_OLD_RUNTIMES and content = JNull
      and doc = "[(''schemaVersion'', JStr ''0.3'')]"]
  note t3 = classifier_verdict[where denylist = DEFAULT_OLD_RUNTIMES and content = JNull
      and doc = "[(''schemaVersion'', JStr ''0.3''), (''mainSteps'', JArr [sleep_step, script_step ''python3.11''])]"
      and steps = "[sleep_step, script_step ''python3.11'']"]
  show ?thesis
    using t1 t2 t3 q f nd m0 by (simp add: document_of_def)
qed

text \<open>
  The classifier raises exactly when the content is an object whose \<open>mainSteps\<close> is
  present and not iterable (\<open>null\<close>, a bool or a number); the exception is
  \<open>TypeError\<close>.
\<close>

lemma iterate_Inl: "iterate v = Inl e \<Longrightarrow> e = TypeError"
  by (cases v) auto

lemma has_outdated_raises_iff:
  "has_outdated_python_runtime content denylist = Inl e \<longleftrightarrow>
     e = TypeError \<and>
     (\<exists>d v. content = JObj d \<and> map_of d ''mainSteps'' = Some v \<and> iterate v = Inl TypeError)"
proof (cases content)
  case (JObj d)
  show ?thesis
  proof (cases "map_of d ''mainSteps''")
    case None
    then show ?thesis using JObj
      by (auto simp: has_outdated_python_runtime_def dict_get_default_def)
  next
    case (Some v)
    then have "d \<noteq> []" by auto
    then show ?thesis using JObj Some iterate_Inl[of v e]
      by (auto simp: has_outdated_python_runtime_def dict_get_default_def split: sum.splits)
  qed
qed (simp_all add: has_outdated_python_runtime_def)

text \<open>
  Claim C5 asks the classifier to return a boolean for every JSON value, whatever the
  types of its fields. On an object whose \<open>mainSteps\<close> is \<open>null\<close> it does not: the
  key is present, so \<open>get\<close> returns \<open>None\<close> and not the default list, and the \<open>for\<close>
  loop over \<open>None\<close> raises \<open>TypeError\<close>. The content, each step and \<open>inputs\<close> are
  guarded with \<open>isinstance\<close>; the value of \<open>mainSteps\<close> is not.
\<close>

theorem classifier_raises_on_null_mainSteps:
  "has_outdated_python_runtime (JObj [(''mainSteps'', JNull)]) denylist = Inl TypeError"
  by (simp add: has_outdated_python_runtime_def dict_get_default_def)

theorem classifier_raises_on_null_mainSteps_witness:
  "has_outdated_python_runtime (JObj [(''mainSteps'', JNull)]) DEFAULT_OLD_RUNTIMES = Inl TypeError"
  using classifier_raises_on_null_mainSteps [of DEFAULT_OLD_RUNTIMES] by simp

section \<open>One iteration of the loop\<close>

lemma emit_simps [simp]:
  "filtered_arns (emit st evs) = filtered_arns st"
  "processed_count (emit st evs) = processed_count st"
  "found_count (emit st evs) = found_count st"
  "ssm_clients (emit st evs) = ssm_clients st"
  "trace (emit st evs) = trace st @ evs"
  by (simp_all add: emit_def)

lemma entered_simps [simp]:
  "filtered_arns (entered arn st) = filtered_arns st"
  "ssm_clients (entered arn st) = ssm_clients st"
  "trace (entered arn st) = trace st @ [Log DEBUG (Processing_ARN arn)]"
  "processed_count (entered arn st) = processed_count st + 1"
  "found_count (entered arn st) = found_count st"
  by (simp_all add: entered_def)

lemma loop_body_malformed:
  "arn_target arn = None \<Longrightarrow>
   loop_body env dl arn st = Continue (emit (entered arn st) [Log WARNING (Could_not_parse_ARN arn)])"
  by (auto simp: arn_target_def loop_body_def entered_def Let_def split: prod.splits option.splits if_splits)

lemma loop_body_target:
  "arn_target arn = Some (region, doc_name) \<Longrightarrow>
   loop_body env dl arn st =
     (case try_client env region (entered arn st) of
        Inl (e, st1) \<Rightarrow> except_client region e st1
      | Inr st1 \<Rightarrow> classify_document env dl arn region doc_name st1)"
  by (auto simp: arn_target_def loop_body_def entered_def Let_def split: prod.splits option.splits if_splits)

lemma remote_calls_simps [simp]:
  "remote_calls [] = []"
  "remote_calls (Log lvl msg # tr) = remote_calls tr"
  "remote_calls (Call_boto3_client r # tr) = Call_boto3_client r # remote_calls tr"
  "remote_calls (Call_get_document c n # tr) = Call_get_document c n # remote_calls tr"
  "remote_calls (tr @ tr') = remote_calls tr @ remote_calls tr'"
  by (simp_all add: remote_calls_def)

lemma remote_calls_except_fetch [simp]: "remote_calls (except_get_document_content n e) = []"
  by (cases e) simp_all

lemma remote_calls_get_document_content [simp]:
  "remote_calls (snd (get_document_content env c n)) = [Call_get_document c n]"
  by (simp add: get_document_content_def split: sum.split option.split)

lemma remote_calls_found_events [simp]: "remote_calls (found_events s) = []"
proof (cases s)
  case (JObj d)
  then show ?thesis by (cases "dict_get_default d ''inputs'' (JObj [])") simp_all
qed simp_all

lemma remote_calls_steps_loop [simp]: "remote_calls (snd (steps_loop ss dl)) = []"
  by (induction ss) (simp_all add: steps_loop_Cons del: steps_loop.simps(2))

lemma remote_calls_classifier:
  "has_outdated_python_runtime content dl = Inr (b, found) \<Longrightarrow> remote_calls found = []"
proof (cases content)
  case (JObj d)
  assume h: "has_outdated_python_runtime content dl = Inr (b, found)"
  show ?thesis
  proof (cases "d = []")
    case True
    then show ?thesis using h JObj by (simp add: has_outdated_python_runtime_def)
  next
    case False
    then obtain ss where "iterate (dict_get_default d ''mainSteps'' (JArr [])) = Inr ss"
      "(b, found) = steps_loop ss dl"
      using h JObj by (auto simp: has_outdated_python_runtime_def split: sum.splits)
    then show ?thesis using remote_calls_steps_loop[of ss dl] by (metis snd_conv)
  qed
qed (auto simp: has_outdated_python_runtime_def)

lemma fst_get_document_content:
  "fst (get_document_content env c n) =
     (case get_document env c n of
        Inr (Some body) \<Rightarrow>
          (if body = [] then JNull else (case json_loads env body of Inr content \<Rightarrow> content | Inl e \<Rightarrow> JNull))
      | _ \<Rightarrow> JNull)"
  by (simp add: get_document_content_def split: sum.split option.split)

lemma classify_document_filtered:
  assumes "ssm_clients st r = Some c"
  shows "filtered_arns (state_of (classify_document env dl arn r n st)) =
           filtered_arns st @ (if document_result env dl c n = Outdated then [arn] else [])"
  using assms
  by (cases "get_document_content env c n")
     (use fst_get_document_content[of env c n] in
      \<open>auto simp: classify_document_def document_result_def split: sum.splits option.splits\<close>)

lemma classify_document_cache:
  "ssm_clients (state_of (classify_document env dl arn r n st)) = ssm_clients st"
  by (cases "get_document_content env (the (ssm_clients st r)) n")
     (auto simp: classify_document_def split: sum.splits option.splits)

lemma classify_document_calls:
  assumes "ssm_clients st r = Some c"
  shows "remote_calls (trace (state_of (classify_document env dl arn r n st))) =
           remote_calls (trace st) @ [Call_get_document c n]"
proof (cases "get_document_content env c n")
  case (Pair content fetched)
  then have f: "remote_calls fetched = [Call_get_document c n]"
    using remote_calls_get_document_content[of env c n] by simp
  show ?thesis using assms Pair f
    by (auto simp: classify_document_def remote_calls_classifier split: sum.splits)
qed

lemma classify_document_kind:
  assumes "ssm_clients st r = Some c"
  shows "classify_document env dl arn r n st =
           (case document_result env dl c n of
              Classifier_raised e \<Rightarrow> Raise e (state_of (classify_document env dl arn r n st))
            | _ \<Rightarrow> Continue (state_of (classify_document env dl arn r n st)))"
  using assms
  by (cases "get_document_content env c n")
     (use fst_get_document_content[of env c n] in
      \<open>auto simp: classify_document_def document_result_def split: sum.splits option.splits\<close>)

lemma try_client_cached:
  "ssm_clients st r = Some c \<Longrightarrow> try_client env r st = Inr st"
  by (simp add: try_client_def)

lemma try_client_built:
  "ssm_clients st r = None \<Longrightarrow> boto3_client env r = Inr c \<Longrightarrow>
   try_client env r st =
     Inr ((emit st [Log DEBUG (Initializing_client r), Call_boto3_client r])\<lparr>ssm_clients := (ssm_clients st)(r \<mapsto> c)\<rparr>)"
  by (simp add: try_client_def)

lemma try_client_failed:
  "ssm_clients st r = None \<Longrightarrow> boto3_client env r = Inl e \<Longrightarrow>
   try_client env r st = Inl (e, emit st [Log DEBUG (Initializing_client r), Call_boto3_client r])"
  by (simp add: try_client_def)

lemma except_client_facts [simp]:
  "filtered_arns (state_of (except_client r e st)) = filtered_arns st"
  "ssm_clients (state_of (except_client r e st)) = ssm_clients st"
  "remote_calls (trace (state_of (except_client r e st))) = remote_calls (trace st)"
  by (cases e; simp)+

text \<open>The four ways an iteration can go.\<close>

lemma loop_body_cases:
  assumes "cache_ok env (ssm_clients st)"
  obtains
    (malformed) "arn_target arn = None"
      "loop_body env dl arn st = Continue (emit (entered arn st) [Log WARNING (Could_not_parse_ARN arn)])"
  | (cached) r n c where "arn_target arn = Some (r, n)" "ssm_clients st r = Some c"
      "boto3_client env r = Inr c"
      "loop_body env dl arn st = classify_document env dl arn r n (entered arn st)"
  | (built) r n c where "arn_target arn = Some (r, n)" "ssm_clients st r = None"
      "boto3_client env r = Inr c"
      "loop_body env dl arn st = classify_document env dl arn r n
         ((emit (entered arn st) [Log DEBUG (Initializing_client r), Call_boto3_client r])
            \<lparr>ssm_clients := (ssm_clients st)(r \<mapsto> c)\<rparr>)"
  | (failed) r n e where "arn_target arn = Some (r, n)" "ssm_clients st r = None"
      "boto3_client env r = Inl e"
      "loop_body env dl arn st = except_client r e
         (emit (entered arn st) [Log DEBUG (Initializing_client r), Call_boto3_client r])"
proof (cases "arn_target arn")
  case None
  then show ?thesis using malformed loop_body_malformed by blast
next
  case (Some t)
  obtain r n where t: "t = (r, n)" by (cases t)
  note lb = loop_body_target[OF Some[unfolded t], of env dl st]
  show ?thesis
  proof (cases "ssm_clients st r")
    case (Some c)
    then have "boto3_client env r = Inr c" using assms by (simp add: cache_ok_def)
    moreover have "loop_body env dl arn st = classify_document env dl arn r n (entered arn st)"
      using lb Some by (simp add: try_client_cached)
    ultimately show ?thesis using cached \<open>arn_target arn = Some t\<close> t Some by blast
  next
    case None
    show ?thesis
    proof (cases "boto3_client env r")
      case (Inl e)
      have "loop_body env dl arn st = except_client r e
         (emit (entered arn st) [Log DEBUG (Initializing_client r), Call_boto3_client r])"
        using lb None Inl by (simp add: try_client_failed)
      then show ?thesis using failed \<open>arn_target arn = Some t\<close> t None Inl by blast
    next
      case (Inr c)
      have "loop_body env dl arn st = classify_document env dl arn r n
         ((emit (entered arn st) [Log DEBUG (Initializing_client r), Call_boto3_client r])
            \<lparr>ssm_clients := (ssm_clients st)(r \<mapsto> c)\<rparr>)"
        using lb None Inr by (simp add: try_client_built)
      then show ?thesis using built \<open>arn_target arn = Some t\<close> t None Inr by blast
    qed
  qed
qed

lemma loop_body_filtered:
  assumes "cache_ok env (ssm_clients st)"
  shows "filtered_arns (state_of (loop_body env dl arn st)) =
           filtered_arns st @ (if item_result env dl arn = Outdated then [arn] else [])"
  using assms
proof (cases rule: loop_body_cases[where arn = arn and dl = dl])
  case malformed
  then show ?thesis by (simp add: item_result_def)
next
  case (cached r n c)
  then show ?thesis by (simp add: item_result_def classify_document_filtered)
next
  case (built r n c)
  then show ?thesis by (simp add: item_result_def classify_document_filtered)
next
  case (failed r n e)
  then show ?thesis by (simp add: item_result_def)
qed

lemma loop_body_cache:
  assumes "cache_ok env (ssm_clients st)"
  shows "ssm_clients (state_of (loop_body env dl arn st)) = item_cache env (ssm_clients st) arn"
  using assms
proof (cases rule: loop_body_cases[where arn = arn and dl = dl])
  case malformed
  then show ?thesis by (simp add: item_cache_def)
next
  case (cached r n c)
  then show ?thesis by (simp add: item_cache_def classify_document_cache)
next
  case (built r n c)
  then show ?thesis by (simp add: item_cache_def classify_document_cache)
next
  case (failed r n e)
  then show ?thesis by (simp add: item_cache_def)
qed

lemma loop_body_calls:
  assumes "cache_ok env (ssm_clients st)"
  shows "remote_calls (trace (state_of (loop_body env dl arn st))) =
           remote_calls (trace st) @ item_calls env (ssm_clients st) arn"
  using assms
proof (cases rule: loop_body_cases[where arn = arn and dl = dl])
  case malformed
  then show ?thesis by (simp add: item_calls_def)
next
  case (cached r n c)
  then show ?thesis by (simp add: item_calls_def classify_document_calls)
next
  case (built r n c)
  then show ?thesis by (simp add: item_calls_def classify_document_calls)
next
  case (failed r n e)
  then show ?thesis by (simp add: item_calls_def)
qed

lemma document_result_not_credentials [simp]:
  "document_result env dl c n \<noteq> Credentials_missing"
  by (simp add: document_result_def split: sum.split option.split prod.split)

lemma loop_body_kind:
  assumes "cache_ok env (ssm_clients st)"
  shows "loop_body env dl arn st =
           (case item_result env dl arn of
              Credentials_missing \<Rightarrow> Return False (state_of (loop_body env dl arn st))
            | Classifier_raised e \<Rightarrow> Raise e (state_of (loop_body env dl arn st))
            | _ \<Rightarrow> Continue (state_of (loop_body env dl arn st)))"
  using assms
proof (cases rule: loop_body_cases[where arn = arn and dl = dl])
  case malformed
  then show ?thesis by (simp add: item_result_def)
next
  case (cached r n c)
  have "ssm_clients (entered arn st) r = Some c" using cached by simp
  from classify_document_kind[OF this, of env dl arn n] cached show ?thesis
    by (simp add: item_result_def split: item_result.splits)
next
  case (built r n c)
  let ?st = "(emit (entered arn st) [Log DEBUG (Initializing_client r), Call_boto3_client r])
            \<lparr>ssm_clients := (ssm_clients st)(r \<mapsto> c)\<rparr>"
  have "ssm_clients ?st r = Some c" by simp
  from classify_document_kind[OF this, of env dl arn n] built show ?thesis
    by (simp add: item_result_def split: item_result.splits)
next
  case (failed r n e)
  then show ?thesis by (cases e) (simp_all add: item_result_def)
qed

lemma cache_ok_item_cache: "cache_ok env cache \<Longrightarrow> cache_ok env (item_cache env cache arn)"
  by (auto simp: cache_ok_def item_cache_def split: option.splits sum.splits)

section \<open>The loop\<close>

lemma loop_body_Continue_iff:
  assumes "cache_ok env (ssm_clients st)"
  shows "(\<exists>st'. loop_body env dl arn st = Continue st') \<longleftrightarrow> \<not> stops (item_result env dl arn)"
  using loop_body_kind[OF assms, of dl arn]
  by (cases "item_result env dl arn") auto

lemma loop_body_cache_ok:
  "cache_ok env (ssm_clients st) \<Longrightarrow> cache_ok env (ssm_clients (state_of (loop_body env dl arn st)))"
  by (simp add: loop_body_cache cache_ok_item_cache)

text \<open>A property that every iteration preserves holds when the loop is left.\<close>

lemma for_arns_invariant:
  assumes "cache_ok env (ssm_clients st)" "P st"
    and step: "\<And>a st. cache_ok env (ssm_clients st) \<Longrightarrow> P st \<Longrightarrow> P (state_of (loop_body env dl a st))"
  shows "P (state_of (for_arns env dl arns st)) \<and>
         cache_ok env (ssm_clients (state_of (for_arns env dl arns st)))"
  using assms(1,2)
proof (induction arns arbitrary: st)
  case Nil
  then show ?case by simp
next
  case (Cons a as)
  have P1: "P (state_of (loop_body env dl a st))" using Cons.prems step by blast
  have C1: "cache_ok env (ssm_clients (state_of (loop_body env dl a st)))"
    using Cons.prems(1) by (rule loop_body_cache_ok)
  show ?case
  proof (cases "loop_body env dl a st")
    case (Continue st1)
    then show ?thesis using Cons.IH[of st1] P1 C1 by simp
  next
    case (Return b st1)
    then show ?thesis using P1 C1 by simp
  next
    case (Raise e st1)
    then show ?thesis using P1 C1 by simp
  qed
qed

lemma for_arns_Continue_iff:
  assumes "cache_ok env (ssm_clients st)"
  shows "(\<exists>st'. for_arns env dl arns st = Continue st') \<longleftrightarrow>
         (\<forall>a\<in>set arns. \<not> stops (item_result env dl a))"
  using assms
proof (induction arns arbitrary: st)
  case Nil
  then show ?case by simp
next
  case (Cons a as)
  note k = loop_body_Continue_iff[OF Cons.prems, of dl a]
  show ?case
  proof (cases "loop_body env dl a st")
    case (Continue st1)
    have "cache_ok env (ssm_clients st1)"
      using loop_body_cache_ok[OF Cons.prems, of dl a] Continue by simp
    from Cons.IH[OF this] k Continue show ?thesis by simp
  next
    case (Return b st1)
    then show ?thesis using k by simp
  next
    case (Raise e st1)
    then show ?thesis using k by simp
  qed
qed

lemma for_arns_filtered:
  assumes "cache_ok env (ssm_clients st)" "for_arns env dl arns st = Continue st'"
  shows "filtered_arns st' = filtered_arns st @ filter (\<lambda>a. item_result env dl a = Outdated) arns"
  using assms
proof (induction arns arbitrary: st)
  case Nil
  then show ?case by simp
next
  case (Cons a as)
  from Cons.prems(2) obtain st1 where lb: "loop_body env dl a st = Continue st1"
    and rest: "for_arns env dl as st1 = Continue st'"
    by (auto split: control.splits)
  have c1: "cache_ok env (ssm_clients st1)"
    using loop_body_cache_ok[OF Cons.prems(1), of dl a] lb by simp
  have f1: "filtered_arns st1 = filtered_arns st @ (if item_result env dl a = Outdated then [a] else [])"
    using loop_body_filtered[OF Cons.prems(1), of dl a] lb by simp
  show ?case using Cons.IH[OF c1 rest] f1 by simp
qed

section \<open>The whole run\<close>

lemma cache_ok_empty [simp]: "cache_ok env (\<lambda>region. None)"
  by (simp add: cache_ok_def)

lemma initial_state_simps [simp]:
  "filtered_arns (initial_state tr) = []"
  "ssm_clients (initial_state tr) = Map.empty"
  "trace (initial_state tr) = tr"
  "cache_ok env (ssm_clients (initial_state tr))"
  by (simp_all add: initial_state_def cache_ok_def)

lemma run_cases [case_names unavailable unreadable empty loop]:
  obtains
    "\<not> BOTO3_AVAILABLE env"
    "filter_ssm_documents env inp outp dl =
       \<lparr>outcome = Returned False, written = None, run_trace = [Log CRITICAL Boto3_not_installed]\<rparr>"
  | e where "BOTO3_AVAILABLE env" "read_lines env inp = Inl e"
    "outcome (filter_ssm_documents env inp outp dl) =
       (if e = FileNotFoundError then Returned False else Raised e)"
    "written (filter_ssm_documents env inp outp dl) = None"
    "remote_calls (run_trace (filter_ssm_documents env inp outp dl)) = []"
  | lines where "BOTO3_AVAILABLE env" "read_lines env inp = Inr lines" "arns_to_process lines = []"
    "filter_ssm_documents env inp outp dl =
       write_empty env outp (starting inp outp dl @ [Log INFO Input_file_is_empty])"
  | lines where "BOTO3_AVAILABLE env" "read_lines env inp = Inr lines" "arns_to_process lines \<noteq> []"
    "filter_ssm_documents env inp outp dl =
       finish env outp (for_arns env dl (arns_to_process lines) (initial_state (starting inp outp dl)))"
proof (cases "BOTO3_AVAILABLE env")
  case False
  then show ?thesis using that(1) by (simp add: filter_ssm_documents_def)
next
  case True
  show ?thesis
  proof (cases "read_lines env inp")
    case (Inl e)
    then show ?thesis using True that(2)[of e]
      by (simp add: filter_ssm_documents_def starting_def)
  next
    case (Inr lines)
    show ?thesis
    proof (cases "arns_to_process lines = []")
      case empty: True
      then show ?thesis using True Inr that(3)[of lines] by (simp add: filter_ssm_documents_def)
    next
      case nonempty: False
      then show ?thesis using True Inr that(4)[of lines]
        by (simp add: filter_ssm_documents_def finish_def initial_state_def split: control.split)
    qed
  qed
qed

lemma remote_calls_starting [simp]: "remote_calls (starting inp outp dl) = []"
  by (simp add: starting_def)

lemma write_filtered_facts:
  "remote_calls (run_trace (write_filtered env outp st)) = remote_calls (trace st)"
  "written (write_filtered env outp st) = Some text \<Longrightarrow> text = output_text (filtered_arns st)"
  "outcome (write_filtered env outp st) =
     (case write_text env outp (output_text (filtered_arns st)) of
        None \<Rightarrow> Returned True
      | Some e \<Rightarrow> if is_IOError e then Returned False else Raised e)"
  "written (write_filtered env outp st) =
     (case write_text env outp (output_text (filtered_arns st)) of
        None \<Rightarrow> Some (output_text (filtered_arns st))
      | Some e \<Rightarrow> None)"
  by (auto simp: write_filtered_def split: option.splits if_splits)

lemma write_empty_facts:
  "remote_calls tr = [] \<Longrightarrow> remote_calls (run_trace (write_empty env outp tr)) = []"
  "outcome (write_empty env outp tr) =
     (case write_text env outp [] of
        None \<Rightarrow> Returned True
      | Some e \<Rightarrow> if is_IOError e then Returned False else Raised e)"
  "written (write_empty env outp tr) = (case write_text env outp [] of None \<Rightarrow> Some [] | Some e \<Rightarrow> None)"
  by (auto simp: write_empty_def split: option.splits if_splits)

lemma finish_calls:
  "remote_calls (run_trace (finish env outp c)) = remote_calls (trace (state_of c))"
  by (cases c) (simp_all add: finish_def write_filtered_facts)

section \<open>The concrete inputs, evaluated\<close>

lemma scenario_simps [simp]:
  "BOTO3_AVAILABLE (scenario lines client fetch w)"
  "read_lines (scenario lines client fetch w) ''ssm_automations_to_update.txt'' = Inr lines"
  "write_text (scenario lines client fetch w) path text = w"
  "boto3_client (scenario lines client fetch w) = client"
  "get_document (scenario lines client fetch w) = fetch"
  "json_loads (scenario lines client fetch w) = demo_loads"
  by (simp_all add: scenario_def)

lemma strip_line_of_arn [simp]:
  "strip (line_of my_doc_arn) = my_doc_arn"
  "strip (line_of new_doc_arn) = new_doc_arn"
  "strip (''  '' @ line_of new_doc_arn) = new_doc_arn"
  "strip (line_of eu_doc_arn) = eu_doc_arn"
  "strip eu_doc_arn = eu_doc_arn"
  "strip (line_of missing_doc_arn) = missing_doc_arn"
  "strip (line_of broken_doc_arn) = broken_doc_arn"
  "strip (line_of ''not-an-arn'') = ''not-an-arn''"
  "strip [newline] = []"
  by (simp_all add: strip_def line_of_def isspace_def newline_def my_doc_arn_def new_doc_arn_def
        eu_doc_arn_def missing_doc_arn_def broken_doc_arn_def)

lemma arn_target_demo [simp]:
  "arn_target my_doc_arn = Some (''us-east-1'', ''MyDoc'')"
  "arn_target new_doc_arn = Some (''us-east-1'', ''NewDoc'')"
  "arn_target eu_doc_arn = Some (''eu-west-1'', ''MyDoc'')"
  "arn_target missing_doc_arn = Some (''us-east-1'', ''team/Missing'')"
  "arn_target broken_doc_arn = Some (''us-west-2'', ''Broken'')"
  "arn_target ''not-an-arn'' = None"
  by (simp_all add: arn_target_def parse_arn_def ARN_REGEX_def newline_def upt_rec my_doc_arn_def
        new_doc_arn_def eu_doc_arn_def missing_doc_arn_def broken_doc_arn_def)

lemma arns_to_process_demo:
  "arns_to_process demo_lines =
     [my_doc_arn, ''not-an-arn'', new_doc_arn, eu_doc_arn, missing_doc_arn, my_doc_arn,
      broken_doc_arn, eu_doc_arn]"
  by (simp add: arns_to_process_def demo_lines_def strip_def line_of_def isspace_def newline_def
        my_doc_arn_def new_doc_arn_def eu_doc_arn_def missing_doc_arn_def broken_doc_arn_def)

lemma document_result_demo:
  "document_result (scenario lines client demo_get_document w) DEFAULT_OLD_RUNTIMES c ''MyDoc'' = Outdated"
  "document_result (scenario lines client demo_get_document w) DEFAULT_OLD_RUNTIMES c ''NewDoc'' = Not_outdated"
  "document_result (scenario lines client demo_get_document w) DEFAULT_OLD_RUNTIMES c ''Broken'' = Decode_failed JSONDecodeError"
  "document_result (scenario lines client demo_get_document w) DEFAULT_OLD_RUNTIMES c ''team/Missing'' =
     Fetch_failed (ClientError ''InvalidDocument'')"
  by (simp_all add: document_result_def demo_get_document_def demo_loads_def script_document_body_def
        quoted_def null_steps_body_def has_outdated_python_runtime_def dict_get_default_def dict_get_def
        script_step_def DEFAULT_OLD_RUNTIMES_def)

lemma item_result_demo:
  "item_result demo_env DEFAULT_OLD_RUNTIMES my_doc_arn = Outdated"
  "item_result demo_env DEFAULT_OLD_RUNTIMES new_doc_arn = Not_outdated"
  "item_result demo_env DEFAULT_OLD_RUNTIMES ''not-an-arn'' = Malformed"
  "item_result demo_env DEFAULT_OLD_RUNTIMES eu_doc_arn = Client_failed (ClientError ''EndpointConnectionError'')"
  "item_result demo_env DEFAULT_OLD_RUNTIMES missing_doc_arn = Fetch_failed (ClientError ''InvalidDocument'')"
  "item_result demo_env DEFAULT_OLD_RUNTIMES broken_doc_arn = Decode_failed JSONDecodeError"
  by (simp_all add: item_result_def demo_env_def demo_client_def document_result_demo)

section \<open>The output file\<close>

lemma run_written:
  assumes "written (filter_ssm_documents env inp outp dl) = Some text"
  shows "\<exists>lines. read_lines env inp = Inr lines \<and>
           text = output_text (filter (\<lambda>arn. item_result env dl arn = Outdated) (arns_to_process lines))"
proof (cases rule: run_cases[of env inp outp dl])
  case unavailable
  then show ?thesis using assms by simp
next
  case (unreadable e)
  then show ?thesis using assms by simp
next
  case (empty lines)
  then have "text = []" using assms by (simp add: write_empty_facts split: option.splits)
  then show ?thesis using empty by (simp add: output_text_def)
next
  case (loop lines)
  let ?st0 = "initial_state (starting inp outp dl)"
  show ?thesis
  proof (cases "for_arns env dl (arns_to_process lines) ?st0")
    case (Continue st)
    have "filtered_arns st = filter (\<lambda>arn. item_result env dl arn = Outdated) (arns_to_process lines)"
      using for_arns_filtered[OF _ Continue] by simp
    moreover have "text = output_text (filtered_arns st)"
      using assms loop Continue by (simp add: finish_def write_filtered_facts(2))
    ultimately show ?thesis using loop by simp
  next
    case (Return b st)
    then show ?thesis using assms loop by (simp add: finish_def)
  next
    case (Raise e st)
    then show ?thesis using assms loop by (simp add: finish_def)
  qed
qed

lemma run_completes:
  assumes "BOTO3_AVAILABLE env" "read_lines env inp = Inr lines"
    "\<forall>arn\<in>set (arns_to_process lines). \<not> stops (item_result env dl arn)"
    "write_text env outp
       (output_text (filter (\<lambda>arn. item_result env dl arn = Outdated) (arns_to_process lines))) = None"
  shows "outcome (filter_ssm_documents env inp outp dl) = Returned True"
    and "written (filter_ssm_documents env inp outp dl) =
       Some (output_text (filter (\<lambda>arn. item_result env dl arn = Outdated) (arns_to_process lines)))"
proof -
  let ?st0 = "initial_state (starting inp outp dl)"
  let ?out = "filter (\<lambda>arn. item_result env dl arn = Outdated) (arns_to_process lines)"
  have both: "outcome (filter_ssm_documents env inp outp dl) = Returned True \<and>
    written (filter_ssm_documents env inp outp dl) = Some (output_text ?out)"
  proof (cases rule: run_cases[of env inp outp dl])
    case unavailable
    then show ?thesis using assms(1) by simp
  next
    case (unreadable e)
    then show ?thesis using assms(2) by simp
  next
    case (empty ls)
    then show ?thesis using assms(2,4) by (simp add: write_empty_facts output_text_def)
  next
    case (loop ls)
    then have ls: "ls = lines" using assms(2) by simp
    obtain st where c: "for_arns env dl (arns_to_process lines) ?st0 = Continue st"
      using for_arns_Continue_iff[of env ?st0 dl "arns_to_process lines"] assms(3) by auto
    have "filtered_arns st = ?out" using for_arns_filtered[OF _ c] by simp
    then show ?thesis using loop ls c assms(4) by (simp add: finish_def write_filtered_facts)
  qed
  from both show "outcome (filter_ssm_documents env inp outp dl) = Returned True" by simp
  from both show "written (filter_ssm_documents env inp outp dl) = Some (output_text ?out)" by simp
qed

text \<open>
  Claim C3, as amended. Whenever a run writes its output file, the text written is the
  list of the stripped, non-blank input lines whose fetched document is classified
  outdated, each followed by a newline, in the order of the input and with every
  occurrence kept: the output is a stable filter of the input lines, so a qualifying ARN
  that occurs several times in the input occurs as many times in the output.
\<close>

theorem output_keeps_every_occurrence:
  assumes "written (filter_ssm_documents env input_file output_file denylist) = Some text"
  shows "\<exists>lines. read_lines env input_file = Inr lines \<and>
           text = output_text (filter (\<lambda>arn. item_result env denylist arn = Outdated)
                                 (arns_to_process lines))"
  using assms by (rule run_written)

lemma item_result_scenario:
  "item_result (scenario lines demo_client demo_get_document w) DEFAULT_OLD_RUNTIMES my_doc_arn = Outdated"
  "item_result (scenario lines demo_client demo_get_document w) DEFAULT_OLD_RUNTIMES new_doc_arn = Not_outdated"
  "item_result (scenario lines demo_client demo_get_document w) DEFAULT_OLD_RUNTIMES ''not-an-arn'' = Malformed"
  "item_result (scenario lines demo_client demo_get_document w) DEFAULT_OLD_RUNTIMES eu_doc_arn =
     Client_failed (ClientError ''EndpointConnectionError'')"
  "item_result (scenario lines demo_client demo_get_document w) DEFAULT_OLD_RUNTIMES missing_doc_arn =
     Fetch_failed (ClientError ''InvalidDocument'')"
  "item_result (scenario lines demo_client demo_get_document w) DEFAULT_OLD_RUNTIMES broken_doc_arn =
     Decode_failed JSONDecodeError"
  by (simp_all add: item_result_def demo_client_def document_result_demo)

lemma demo_outdated:
  "filter (\<lambda>arn. item_result (scenario lines demo_client demo_get_document w) DEFAULT_OLD_RUNTIMES arn = Outdated)
     (arns_to_process demo_lines) = [my_doc_arn, my_doc_arn]"
  by (simp add: arns_to_process_demo item_result_scenario)

lemma demo_no_stop:
  "\<forall>arn\<in>set (arns_to_process demo_lines).
     \<not> stops (item_result (scenario lines demo_client demo_get_document w) DEFAULT_OLD_RUNTIMES arn)"
  by (simp add: arns_to_process_demo item_result_scenario)

theorem output_keeps_every_occurrence_witness:
  "written (filter_ssm_documents demo_env DEFAULT_INPUT_FILENAME DEFAULT_OUTPUT_FILENAME DEFAULT_OLD_RUNTIMES) =
     Some (output_text [my_doc_arn, my_doc_arn])
   \<and> (\<exists>lines. read_lines demo_env DEFAULT_INPUT_FILENAME = Inr lines \<and>
         output_text [my_doc_arn, my_doc_arn] =
           output_text (filter (\<lambda>arn. item_result demo_env DEFAULT_OLD_RUNTIMES arn = Outdated)
                          (arns_to_process lines)))"
proof -
  have w: "written (filter_ssm_documents demo_env DEFAULT_INPUT_FILENAME DEFAULT_OUTPUT_FILENAME DEFAULT_OLD_RUNTIMES) =
     Some (output_text [my_doc_arn, my_doc_arn])"
    using run_completes(2)[of demo_env DEFAULT_INPUT_FILENAME demo_lines DEFAULT_OLD_RUNTIMES DEFAULT_OUTPUT_FILENAME]
      demo_no_stop[of demo_lines None] demo_outdated[of demo_lines None]
    by (simp add: demo_env_def DEFAULT_INPUT_FILENAME_def)
  from output_keeps_every_occurrence[OF w] w show ?thesis by simp
qed

text \<open>
  Claim C3 as stated asks for each qualifying ARN exactly once. The loop appends the
  line at every iteration that finds it outdated and nothing removes duplicates: an
  input that holds the same qualifying ARN on two lines gives an output with two lines.
\<close>

lemma arns_to_process_twice: "arns_to_process twice_lines = [my_doc_arn, my_doc_arn]"
  by (simp add: arns_to_process_def twice_lines_def strip_def line_of_def isspace_def newline_def
        my_doc_arn_def)

theorem duplicate_arn_counterexample:
  "written (filter_ssm_documents (scenario twice_lines demo_client demo_get_document None)
      DEFAULT_INPUT_FILENAME DEFAULT_OUTPUT_FILENAME DEFAULT_OLD_RUNTIMES) =
     Some (my_doc_arn @ [newline] @ my_doc_arn @ [newline])
   \<and> arns_to_process twice_lines = [my_doc_arn, my_doc_arn]"
  using run_completes(2)[of "scenario twice_lines demo_client demo_get_document None" DEFAULT_INPUT_FILENAME
      twice_lines DEFAULT_OLD_RUNTIMES DEFAULT_OUTPUT_FILENAME]
  by (simp add: arns_to_process_twice item_result_scenario DEFAULT_INPUT_FILENAME_def output_text_def)

section \<open>Lines with an empty document name\<close>

lemma strip_arn_text:
  "strip (arn_text region account []) = arn_text region account []"
  "strip (line_of (arn_text region account [])) = arn_text region account []"
  by (simp_all add: strip_def arn_text_def line_of_def isspace_def newline_def)

lemma arn_target_empty_name:
  assumes "segment region" "segment account"
  shows "parse_arn (arn_text region account []) = (Some region, Some [])"
    and "arn_target (arn_text region account []) = None"
proof -
  have "parse_arn (arn_text region account [] @ []) = (Some region, Some [])"
    using assms by (intro parse_arn_complete) auto
  then show p: "parse_arn (arn_text region account []) = (Some region, Some [])" by simp
  show "arn_target (arn_text region account []) = None" by (simp add: arn_target_def p)
qed

lemma run_written_not_outdated:
  assumes "item_result env dl arn \<noteq> Outdated"
    "written (filter_ssm_documents env inp outp dl) = Some text"
  shows "\<exists>kept. text = output_text kept \<and> arn \<notin> set kept"
proof -
  from run_written[OF assms(2)] obtain lines where
    "text = output_text (filter (\<lambda>arn. item_result env dl arn = Outdated) (arns_to_process lines))"
    by blast
  moreover have "arn \<notin> set (filter (\<lambda>arn. item_result env dl arn = Outdated) (arns_to_process lines))"
    using assms(1) by simp
  ultimately show ?thesis by blast
qed

text \<open>
  Claim C10. For a line \<open>arn:aws:ssm:<region>:<account-id>:document/\<close> with an empty
  document name (region and account id not empty and free of colons), \<open>parse_arn\<close>
  succeeds with the pair of the region and the empty name, and the line is its own
  stripped form. The driver takes the empty name for a parse failure: the iteration
  only counts the line and logs two records, so no client is built and no document is
  fetched; the loop goes on with the remaining lines; and the line is in no output
  file a run writes.
\<close>

theorem empty_document_name_is_skipped:
  assumes "segment region" "segment account"
  shows "parse_arn (arn_text region account []) = (Some region, Some [])
    \<and> strip (line_of (arn_text region account [])) = arn_text region account []
    \<and> loop_body env denylist (arn_text region account []) st =
        Continue (st\<lparr>processed_count := processed_count st + 1,
                     trace := trace st @ [Log DEBUG (Processing_ARN (arn_text region account [])),
                                          Log WARNING (Could_not_parse_ARN (arn_text region account []))]\<rparr>)
    \<and> for_arns env denylist (arn_text region account [] # rest) st =
        for_arns env denylist rest
          (st\<lparr>processed_count := processed_count st + 1,
              trace := trace st @ [Log DEBUG (Processing_ARN (arn_text region account [])),
                                   Log WARNING (Could_not_parse_ARN (arn_text region account []))]\<rparr>)
    \<and> (\<forall>text. written (filter_ssm_documents env input_file output_file denylist) = Some text \<longrightarrow>
          (\<exists>kept. text = output_text kept \<and> arn_text region account [] \<notin> set kept))"
proof -
  let ?arn = "arn_text region account []"
  note t = arn_target_empty_name[OF assms]
  have lb: "loop_body env denylist ?arn st =
        Continue (st\<lparr>processed_count := processed_count st + 1,
                     trace := trace st @ [Log DEBUG (Processing_ARN ?arn),
                                          Log WARNING (Could_not_parse_ARN ?arn)]\<rparr>)"
    using loop_body_malformed[OF t(2), of env denylist st] by (simp add: entered_def emit_def)
  have "item_result env denylist ?arn \<noteq> Outdated" using t(2) by (simp add: item_result_def)
  then have w: "\<forall>text. written (filter_ssm_documents env input_file output_file denylist) = Some text \<longrightarrow>
          (\<exists>kept. text = output_text kept \<and> ?arn \<notin> set kept)"
    using run_written_not_outdated by blast
  show ?thesis using t(1) strip_arn_text(2) lb w by simp
qed

lemma item_result_nameless:
  "item_result env dl nameless_arn = Malformed"
  using arn_target_empty_name(2)[of "''us-east-1''" "''123456789012''"]
  by (simp add: item_result_def nameless_arn_def segment_def)

lemma arns_to_process_nameless: "arns_to_process nameless_lines = [nameless_arn, my_doc_arn]"
proof -
  have "my_doc_arn \<noteq> []" "nameless_arn \<noteq> []"
    by (simp_all add: my_doc_arn_def nameless_arn_def arn_text_def)
  moreover have "strip (line_of nameless_arn) = nameless_arn"
    by (simp add: nameless_arn_def strip_arn_text)
  ultimately show ?thesis by (simp add: arns_to_process_def nameless_lines_def)
qed

theorem empty_document_name_is_skipped_witness:
  "segment ''us-east-1'' \<and> segment ''123456789012''
   \<and> parse_arn nameless_arn = (Some ''us-east-1'', Some [])
   \<and> strip (line_of nameless_arn) = nameless_arn
   \<and> loop_body (scenario nameless_lines demo_client demo_get_document None) DEFAULT_OLD_RUNTIMES
        nameless_arn (initial_state []) =
      Continue ((initial_state [])\<lparr>processed_count := 1,
                  trace := [Log DEBUG (Processing_ARN nameless_arn),
                            Log WARNING (Could_not_parse_ARN nameless_arn)]\<rparr>)
   \<and> written (filter_ssm_documents (scenario nameless_lines demo_client demo_get_document None)
        DEFAULT_INPUT_FILENAME DEFAULT_OUTPUT_FILENAME DEFAULT_OLD_RUNTIMES) = Some (output_text [my_doc_arn])
   \<and> (\<exists>kept. output_text [my_doc_arn] = output_text kept \<and> nameless_arn \<notin> set kept)"
proof -
  let ?env = "scenario nameless_lines demo_client demo_get_document None"
  have s: "segment ''us-east-1''" "segment ''123456789012''" by (simp_all add: segment_def)
  have w: "written (filter_ssm_documents ?env DEFAULT_INPUT_FILENAME DEFAULT_OUTPUT_FILENAME DEFAULT_OLD_RUNTIMES) =
             Some (output_text [my_doc_arn])"
    using run_completes(2)[of ?env DEFAULT_INPUT_FILENAME nameless_lines DEFAULT_OLD_RUNTIMES DEFAULT_OUTPUT_FILENAME]
    by (simp add: arns_to_process_nameless item_result_nameless item_result_scenario DEFAULT_INPUT_FILENAME_def)
  from empty_document_name_is_skipped[OF s, of ?env DEFAULT_OLD_RUNTIMES "initial_state []" "[my_doc_arn]"
      DEFAULT_INPUT_FILENAME DEFAULT_OUTPUT_FILENAME] s w
  show ?thesis by (simp add: nameless_arn_def initial_state_def)
qed

section \<open>An input without ARNs\<close>

lemma all_blank: "(\<forall>line\<in>set lines. strip line = []) \<Longrightarrow> arns_to_process lines = []"
  by (induction lines) (simp_all add: arns_to_process_def)

text \<open>
  Claim C7, as amended. In a run that starts (\<open>boto3\<close> is available) on an input
  file that exists and has no non-blank line, the driver makes no remote call and
  processes no line. It opens the output file without writing to it: when that
  succeeds the output file is empty and the run returns \<open>True\<close>; when it raises
  \<open>IOError\<close> the run logs the error and returns \<open>False\<close>.
\<close>

theorem empty_input_run:
  assumes "BOTO3_AVAILABLE env" "read_lines env input_file = Inr lines"
    "\<forall>line\<in>set lines. strip line = []"
  shows "(write_text env output_file [] = None \<longrightarrow>
            filter_ssm_documents env input_file output_file denylist =
              \<lparr>outcome = Returned True, written = Some [],
               run_trace = starting input_file output_file denylist @ [Log INFO Input_file_is_empty]\<rparr>)
       \<and> (\<forall>e. write_text env output_file [] = Some e \<and> is_IOError e \<longrightarrow>
            filter_ssm_documents env input_file output_file denylist =
              \<lparr>outcome = Returned False, written = None,
               run_trace = starting input_file output_file denylist @
                 [Log INFO Input_file_is_empty, Log ERROR (Could_not_write_empty_output output_file e)]\<rparr>)
       \<and> remote_calls (run_trace (filter_ssm_documents env input_file output_file denylist)) = []"
proof -
  have "arns_to_process lines = []" using assms(3) by (rule all_blank)
  then have run: "filter_ssm_documents env input_file output_file denylist =
      write_empty env output_file (starting input_file output_file denylist @ [Log INFO Input_file_is_empty])"
    using assms(1,2) by (simp add: filter_ssm_documents_def)
  show ?thesis unfolding run by (auto simp: write_empty_def split: option.splits)
qed

lemma strip_blank_lines: "\<forall>line\<in>set blank_lines. strip line = []"
  by (simp add: blank_lines_def strip_def isspace_def newline_def)

theorem empty_input_run_witness:
  "BOTO3_AVAILABLE (scenario blank_lines demo_client demo_get_document None)
   \<and> read_lines (scenario blank_lines demo_client demo_get_document None) DEFAULT_INPUT_FILENAME = Inr blank_lines
   \<and> strip [newline] = [] \<and> strip (''   '' @ [newline]) = [] \<and> strip [CHR 0x09] = []
   \<and> filter_ssm_documents (scenario blank_lines demo_client demo_get_document None)
        DEFAULT_INPUT_FILENAME DEFAULT_OUTPUT_FILENAME DEFAULT_OLD_RUNTIMES =
       \<lparr>outcome = Returned True, written = Some [],
        run_trace = starting DEFAULT_INPUT_FILENAME DEFAULT_OUTPUT_FILENAME DEFAULT_OLD_RUNTIMES @ [Log INFO Input_file_is_empty]\<rparr>
   \<and> remote_calls (run_trace (filter_ssm_documents (scenario blank_lines demo_client demo_get_document None)
        DEFAULT_INPUT_FILENAME DEFAULT_OUTPUT_FILENAME DEFAULT_OLD_RUNTIMES)) = []"
proof -
  let ?env = "scenario blank_lines demo_client demo_get_document None"
  have r: "read_lines ?env DEFAULT_INPUT_FILENAME = Inr blank_lines" by (simp add: DEFAULT_INPUT_FILENAME_def)
  have b: "BOTO3_AVAILABLE ?env" by simp
  from empty_input_run[OF b r strip_blank_lines, of DEFAULT_OUTPUT_FILENAME DEFAULT_OLD_RUNTIMES] r b strip_blank_lines
  show ?thesis by (simp add: blank_lines_def)
qed

text \<open>
  Claim C7 as stated promises success for every such run. With an output file that
  cannot be opened for writing, the \<open>except IOError\<close> clause of the empty-input
  branch returns \<open>False\<close>.
\<close>

theorem empty_input_unwritable_counterexample:
  "arns_to_process blank_lines = []
   \<and> outcome (filter_ssm_documents (scenario blank_lines demo_client demo_get_document (Some OSError))
        DEFAULT_INPUT_FILENAME DEFAULT_OUTPUT_FILENAME DEFAULT_OLD_RUNTIMES) = Returned False
   \<and> written (filter_ssm_documents (scenario blank_lines demo_client demo_get_document (Some OSError))
        DEFAULT_INPUT_FILENAME DEFAULT_OUTPUT_FILENAME DEFAULT_OLD_RUNTIMES) = None"
  by (simp add: filter_ssm_documents_def DEFAULT_INPUT_FILENAME_def all_blank[OF strip_blank_lines] write_empty_def)

section \<open>Per-item failures\<close>

lemma loop_body_skip:
  assumes "cache_ok env (ssm_clients st)" "per_item_failure (item_result env dl arn)"
  shows "\<exists>st'. loop_body env dl arn st = Continue st' \<and> filtered_arns st' = filtered_arns st \<and>
           for_arns env dl (arn # rest) st = for_arns env dl rest st'"
proof -
  have ns: "\<not> stops (item_result env dl arn)" and no: "item_result env dl arn \<noteq> Outdated"
    using assms(2) by (cases "item_result env dl arn"; simp)+
  from ns obtain st' where lb: "loop_body env dl arn st = Continue st'"
    using loop_body_Continue_iff[OF assms(1), of dl arn] by blast
  have "filtered_arns st' = filtered_arns st"
    using loop_body_filtered[OF assms(1), of dl arn] lb no by simp
  then show ?thesis using lb by simp
qed

text \<open>
  Claim C6. When an input line fails as an item (a malformed ARN, a client
  construction that fails without being a credentials failure, a fetch that raises, a
  body that does not decode), the iteration ends normally with the list of filtered
  ARNs unchanged and the loop goes on with the remaining lines; such a line is in no
  output file a run writes. A run in which no line meets a credentials failure at the
  client construction or an exception of the classifier, and whose output file can be
  written, returns \<open>True\<close> and writes exactly the outdated lines.
\<close>

theorem per_item_failure_skips_only_the_item:
  "(cache_ok env (ssm_clients st) \<and> per_item_failure (item_result env denylist arn) \<longrightarrow>
      (\<exists>st'. loop_body env denylist arn st = Continue st' \<and> filtered_arns st' = filtered_arns st \<and>
             for_arns env denylist (arn # rest) st = for_arns env denylist rest st'))
   \<and> (\<forall>text. per_item_failure (item_result env denylist arn) \<and>
         written (filter_ssm_documents env input_file output_file denylist) = Some text \<longrightarrow>
         (\<exists>kept. text = output_text kept \<and> arn \<notin> set kept))
   \<and> (BOTO3_AVAILABLE env \<and> read_lines env input_file = Inr lines \<and>
       (\<forall>a\<in>set (arns_to_process lines). \<not> stops (item_result env denylist a)) \<and>
       write_text env output_file
         (output_text (filter (\<lambda>a. item_result env denylist a = Outdated) (arns_to_process lines))) = None \<longrightarrow>
       outcome (filter_ssm_documents env input_file output_file denylist) = Returned True \<and>
       written (filter_ssm_documents env input_file output_file denylist) =
         Some (output_text (filter (\<lambda>a. item_result env denylist a = Outdated) (arns_to_process lines))))"
proof (intro conjI impI allI)
  assume "cache_ok env (ssm_clients st) \<and> per_item_failure (item_result env denylist arn)"
  then show "\<exists>st'. loop_body env denylist arn st = Continue st' \<and> filtered_arns st' = filtered_arns st \<and>
             for_arns env denylist (arn # rest) st = for_arns env denylist rest st'"
    using loop_body_skip by blast
next
  fix out
  assume a: "per_item_failure (item_result env denylist arn) \<and>
         written (filter_ssm_documents env input_file output_file denylist) = Some out"
  then have "item_result env denylist arn \<noteq> Outdated" by (cases "item_result env denylist arn") simp_all
  then show "\<exists>kept. out = output_text kept \<and> arn \<notin> set kept"
    using a run_written_not_outdated by blast
next
  assume a: "BOTO3_AVAILABLE env \<and> read_lines env input_file = Inr lines \<and>
       (\<forall>a\<in>set (arns_to_process lines). \<not> stops (item_result env denylist a)) \<and>
       write_text env output_file
         (output_text (filter (\<lambda>a. item_result env denylist a = Outdated) (arns_to_process lines))) = None"
  then show "outcome (filter_ssm_documents env input_file output_file denylist) = Returned True"
    using run_completes(1) by blast
  from a show "written (filter_ssm_documents env input_file output_file denylist) =
         Some (output_text (filter (\<lambda>a. item_result env denylist a = Outdated) (arns_to_process lines)))"
    using run_completes(2) by blast
qed

theorem per_item_failure_skips_only_the_item_witness:
  "per_item_failure (item_result demo_env DEFAULT_OLD_RUNTIMES ''not-an-arn'')
   \<and> per_item_failure (item_result demo_env DEFAULT_OLD_RUNTIMES eu_doc_arn)
   \<and> per_item_failure (item_result demo_env DEFAULT_OLD_RUNTIMES missing_doc_arn)
   \<and> per_item_failure (item_result demo_env DEFAULT_OLD_RUNTIMES broken_doc_arn)
   \<and> cache_ok demo_env (ssm_clients (initial_state []))
   \<and> (\<exists>st'. loop_body demo_env DEFAULT_OLD_RUNTIMES eu_doc_arn (initial_state []) = Continue st' \<and>
             filtered_arns st' = filtered_arns (initial_state []) \<and>
             for_arns demo_env DEFAULT_OLD_RUNTIMES (eu_doc_arn # [my_doc_arn]) (initial_state []) =
               for_arns demo_env DEFAULT_OLD_RUNTIMES [my_doc_arn] st')
   \<and> BOTO3_AVAILABLE demo_env \<and> read_lines demo_env DEFAULT_INPUT_FILENAME = Inr demo_lines
   \<and> outcome (filter_ssm_documents demo_env DEFAULT_INPUT_FILENAME DEFAULT_OUTPUT_FILENAME DEFAULT_OLD_RUNTIMES) = Returned True
   \<and> written (filter_ssm_documents demo_env DEFAULT_INPUT_FILENAME DEFAULT_OUTPUT_FILENAME DEFAULT_OLD_RUNTIMES) =
       Some (output_text [my_doc_arn, my_doc_arn])
   \<and> (\<exists>kept. output_text [my_doc_arn, my_doc_arn] = output_text kept \<and> broken_doc_arn \<notin> set kept)"
proof -
  note t = per_item_failure_skips_only_the_item
  have f: "per_item_failure (item_result demo_env DEFAULT_OLD_RUNTIMES ''not-an-arn'')"
    "per_item_failure (item_result demo_env DEFAULT_OLD_RUNTIMES eu_doc_arn)"
    "per_item_failure (item_result demo_env DEFAULT_OLD_RUNTIMES missing_doc_arn)"
    "per_item_failure (item_result demo_env DEFAULT_OLD_RUNTIMES broken_doc_arn)"
    by (simp_all add: item_result_demo)
  have c: "cache_ok demo_env (ssm_clients (initial_state []))" by simp
  have e: "BOTO3_AVAILABLE demo_env" "read_lines demo_env DEFAULT_INPUT_FILENAME = Inr demo_lines"
    "write_text demo_env DEFAULT_OUTPUT_FILENAME
       (output_text (filter (\<lambda>a. item_result demo_env DEFAULT_OLD_RUNTIMES a = Outdated)
          (arns_to_process demo_lines))) = None"
    by (simp_all add: demo_env_def DEFAULT_INPUT_FILENAME_def)
  have n: "\<forall>a\<in>set (arns_to_process demo_lines). \<not> stops (item_result demo_env DEFAULT_OLD_RUNTIMES a)"
    using demo_no_stop[of demo_lines None] by (simp add: demo_env_def)
  have o: "filter (\<lambda>a. item_result demo_env DEFAULT_OLD_RUNTIMES a = Outdated) (arns_to_process demo_lines) =
             [my_doc_arn, my_doc_arn]"
    using demo_outdated[of demo_lines None] by (simp add: demo_env_def)
  from t[of demo_env "initial_state []" DEFAULT_OLD_RUNTIMES eu_doc_arn "[my_doc_arn]" DEFAULT_INPUT_FILENAME
      DEFAULT_OUTPUT_FILENAME demo_lines] f(2) c e n o
  have 1: "\<exists>st'. loop_body demo_env DEFAULT_OLD_RUNTIMES eu_doc_arn (initial_state []) = Continue st' \<and>
             filtered_arns st' = filtered_arns (initial_state []) \<and>
             for_arns demo_env DEFAULT_OLD_RUNTIMES (eu_doc_arn # [my_doc_arn]) (initial_state []) =
               for_arns demo_env DEFAULT_OLD_RUNTIMES [my_doc_arn] st'"
    and 2: "outcome (filter_ssm_documents demo_env DEFAULT_INPUT_FILENAME DEFAULT_OUTPUT_FILENAME DEFAULT_OLD_RUNTIMES) = Returned True"
    and 3: "written (filter_ssm_documents demo_env DEFAULT_INPUT_FILENAME DEFAULT_OUTPUT_FILENAME DEFAULT_OLD_RUNTIMES) =
       Some (output_text [my_doc_arn, my_doc_arn])"
    by simp_all
  from t[of demo_env "initial_state []" DEFAULT_OLD_RUNTIMES broken_doc_arn "[]" DEFAULT_INPUT_FILENAME
      DEFAULT_OUTPUT_FILENAME demo_lines] f(4) 3
  have 4: "\<exists>kept. output_text [my_doc_arn, my_doc_arn] = output_text kept \<and> broken_doc_arn \<notin> set kept"
    by simp
  from f c 1 e(1,2) 2 3 4 show ?thesis by blast
qed

section \<open>Credentials failures\<close>

lemma call_in_remote_calls [simp]:
  "Call_boto3_client r \<in> set (remote_calls tr) \<longleftrightarrow> Call_boto3_client r \<in> set tr"
  "Call_get_document c n \<in> set (remote_calls tr) \<longleftrightarrow> Call_get_document c n \<in> set tr"
  by (simp_all add: remote_calls_def)

lemma item_calls_client_call:
  "Call_boto3_client r \<in> set (item_calls env cache a) \<longleftrightarrow>
     (\<exists>n. arn_target a = Some (r, n)) \<and> cache r = None"
proof (cases "arn_target a")
  case None
  then show ?thesis by (simp add: item_calls_def)
next
  case (Some t)
  obtain r' n' where t: "t = (r', n')" by (cases t)
  show ?thesis
  proof (cases "cache r'")
    case None
    then show ?thesis using Some t
      by (cases "boto3_client env r'") (auto simp: item_calls_def)
  next
    case (Some c)
    then show ?thesis using \<open>arn_target a = Some t\<close> t by (auto simp: item_calls_def)
  qed
qed

lemma item_calls_failed:
  "arn_target a = Some (r, n) \<Longrightarrow> cache r = None \<Longrightarrow> boto3_client env r = Inl e \<Longrightarrow>
   item_calls env cache a = [Call_boto3_client r]"
  by (simp add: item_calls_def)

lemma loop_body_credentials:
  assumes "arn_target a = Some (region, n)" "ssm_clients st region = None"
    "boto3_client env region = Inl e" "is_credentials_error e"
  shows "loop_body env dl a st =
           Return False (emit (entered a st)
             [Log DEBUG (Initializing_client region), Call_boto3_client region,
              Log ERROR Credentials_not_found])"
  using assms by (cases e) (simp_all add: loop_body_target try_client_def emit_def)

lemma for_arns_credentials_abort:
  assumes "cache_ok env (ssm_clients st)" "boto3_client env region = Inl e" "is_credentials_error e"
    "Call_boto3_client region \<notin> set (trace st)"
    "Call_boto3_client region \<in> set (trace (state_of (for_arns env dl arns st)))"
  shows "\<exists>st'. for_arns env dl arns st = Return False st' \<and>
           (\<exists>before. trace st' = before @ [Call_boto3_client region, Log ERROR Credentials_not_found])"
  using assms(1,4,5)
proof (induction arns arbitrary: st)
  case Nil
  then show ?case by simp
next
  case (Cons a as)
  let ?st1 = "state_of (loop_body env dl a st)"
  note calls = loop_body_calls[OF Cons.prems(1), of dl a]
  have c1: "cache_ok env (ssm_clients ?st1)" using Cons.prems(1) by (rule loop_body_cache_ok)
  show ?case
  proof (cases "Call_boto3_client region \<in> set (item_calls env (ssm_clients st) a)")
    case True
    then obtain n where t: "arn_target a = Some (region, n)" and u: "ssm_clients st region = None"
      by (auto simp: item_calls_client_call)
    let ?st' = "emit (entered a st)
             [Log DEBUG (Initializing_client region), Call_boto3_client region,
              Log ERROR Credentials_not_found]"
    have lb: "loop_body env dl a st = Return False ?st'"
      using t u assms(2,3) by (rule loop_body_credentials)
    have "trace ?st' = (trace st @ [Log DEBUG (Processing_ARN a), Log DEBUG (Initializing_client region)]) @
            [Call_boto3_client region, Log ERROR Credentials_not_found]"
      by simp
    then have "\<exists>before. trace ?st' = before @ [Call_boto3_client region, Log ERROR Credentials_not_found]"
      by (rule exI)
    moreover have "for_arns env dl (a # as) st = Return False ?st'" using lb by simp
    ultimately show ?thesis by blast
  next
    case False
    have "Call_boto3_client region \<notin> set (remote_calls (trace ?st1))"
      unfolding calls using False Cons.prems(2) by simp
    then have notin: "Call_boto3_client region \<notin> set (trace ?st1)" by simp
    show ?thesis
    proof (cases "loop_body env dl a st")
      case (Continue st1)
      have c: "cache_ok env (ssm_clients st1)" using c1 Continue by simp
      have n: "Call_boto3_client region \<notin> set (trace st1)" using notin Continue by simp
      have f: "Call_boto3_client region \<in> set (trace (state_of (for_arns env dl as st1)))"
        using Cons.prems(3) Continue by simp
      from Cons.IH[OF c n f] show ?thesis using Continue by simp
    next
      case (Return b st1)
      then show ?thesis using notin Cons.prems(3) by simp
    next
      case (Raise x st1)
      then show ?thesis using notin Cons.prems(3) by simp
    qed
  qed
qed

text \<open>
  A credentials failure at the construction of a client. If a run calls
  \<open>boto3.client\<close> for a region and the call raises \<open>NoCredentialsError\<close> or
  \<open>PartialCredentialsError\<close>, the run returns \<open>False\<close> and writes no output file, and
  its last two events are that call and the error record of the credentials handler:
  the line is not skipped and no later line is processed, malformed or not.
\<close>

lemma run_credentials_abort:
  assumes "boto3_client env region = Inl e" "is_credentials_error e"
    "Call_boto3_client region \<in> set (run_trace (filter_ssm_documents env inp outp dl))"
  shows "outcome (filter_ssm_documents env inp outp dl) = Returned False \<and>
         written (filter_ssm_documents env inp outp dl) = None \<and>
         (\<exists>before. run_trace (filter_ssm_documents env inp outp dl) =
                     before @ [Call_boto3_client region, Log ERROR Credentials_not_found])"
proof (cases rule: run_cases[of env inp outp dl])
  case unavailable
  then show ?thesis using assms(3) by simp
next
  case (unreadable x)
  then have "Call_boto3_client region \<notin> set (remote_calls (run_trace (filter_ssm_documents env inp outp dl)))"
    by simp
  then show ?thesis using assms(3) by simp
next
  case (empty lines)
  have "remote_calls (run_trace (filter_ssm_documents env inp outp dl)) = []"
    using empty by (simp add: write_empty_facts(1))
  then have "Call_boto3_client region \<notin> set (remote_calls (run_trace (filter_ssm_documents env inp outp dl)))"
    by simp
  then show ?thesis using assms(3) by simp
next
  case (loop lines)
  let ?c = "for_arns env dl (arns_to_process lines) (initial_state (starting inp outp dl))"
  have "Call_boto3_client region \<in> set (remote_calls (run_trace (finish env outp ?c)))"
    using assms(3) loop by simp
  then have "Call_boto3_client region \<in> set (trace (state_of ?c))"
    unfolding finish_calls by simp
  moreover have "Call_boto3_client region \<notin> set (trace (initial_state (starting inp outp dl)))"
    by (simp add: starting_def)
  ultimately obtain st' where "?c = Return False st'"
    "\<exists>before. trace st' = before @ [Call_boto3_client region, Log ERROR Credentials_not_found]"
    using for_arns_credentials_abort[OF _ assms(1,2), of "initial_state (starting inp outp dl)" dl
        "arns_to_process lines"] by auto
  then show ?thesis using loop by (simp add: finish_def)
qed

lemma arns_to_process_three: "arns_to_process three_lines = [''not-an-arn'', my_doc_arn, new_doc_arn]"
  by (simp add: arns_to_process_def three_lines_def strip_def line_of_def isspace_def newline_def
        my_doc_arn_def new_doc_arn_def)

lemma my_doc_arn_distinct [simp]: "my_doc_arn \<noteq> []" "new_doc_arn \<noteq> []"
  by (simp_all add: my_doc_arn_def new_doc_arn_def)

lemma run_no_credentials_client:
  "filter_ssm_documents (scenario three_lines no_credentials_client demo_get_document None)
      DEFAULT_INPUT_FILENAME DEFAULT_OUTPUT_FILENAME DEFAULT_OLD_RUNTIMES =
     \<lparr>outcome = Returned False, written = None,
      run_trace = starting DEFAULT_INPUT_FILENAME DEFAULT_OUTPUT_FILENAME DEFAULT_OLD_RUNTIMES @
        [Log DEBUG (Processing_ARN ''not-an-arn''), Log WARNING (Could_not_parse_ARN ''not-an-arn''),
         Log DEBUG (Processing_ARN my_doc_arn), Log DEBUG (Initializing_client ''us-east-1''),
         Call_boto3_client ''us-east-1'', Log ERROR Credentials_not_found]\<rparr>"
  by (simp add: filter_ssm_documents_def DEFAULT_INPUT_FILENAME_def arns_to_process_three
        loop_body_malformed loop_body_target[OF arn_target_demo(1)] try_client_def
        no_credentials_client_def emit_def entered_def)

lemma item_result_fetch_failed:
  assumes "arn_target arn = Some (region, doc_name)" "boto3_client env region = Inr client"
    "get_document env client doc_name = Inl e"
  shows "item_result env dl arn = Fetch_failed e"
  using assms by (simp add: item_result_def document_result_def)

lemma get_document_content_credentials:
  assumes "get_document env client doc_name = Inl e" "is_credentials_error e"
  shows "get_document_content env client doc_name =
           (JNull, [Call_get_document client doc_name, Log ERROR (Unexpected_fetch_error doc_name e)])"
  using assms by (cases e) (simp_all add: get_document_content_def)

text \<open>
  Claim C2 asks a run to abort with \<open>False\<close> when the remote service reports a
  credentials failure at any point, at the construction of a client or at a document
  fetch, and never to skip the item and continue. At the construction of a client the
  run aborts. At a fetch it does not: the last \<open>except\<close> clause of
  \<open>get_document_content\<close> catches every exception, \<open>NoCredentialsError\<close> and
  \<open>PartialCredentialsError\<close> too, logs it as an unexpected error and returns \<open>None\<close>,
  so the iteration ends normally with the list of filtered ARNs unchanged and the loop
  goes on with the remaining lines. With a remote service whose clients can be built
  and whose every fetch raises \<open>NoCredentialsError\<close>, a run on three lines processes
  all of them, writes an empty output file and returns \<open>True\<close>, whatever the denylist.
\<close>

theorem credentials_failure_at_fetch_is_skipped:
  "(cache_ok env (ssm_clients st) \<and> arn_target arn = Some (region, doc_name) \<and>
      boto3_client env region = Inr client \<and> get_document env client doc_name = Inl e \<and>
      is_credentials_error e \<longrightarrow>
      get_document_content env client doc_name =
        (JNull, [Call_get_document client doc_name, Log ERROR (Unexpected_fetch_error doc_name e)]) \<and>
      (\<exists>st'. loop_body env denylist arn st = Continue st' \<and> filtered_arns st' = filtered_arns st \<and>
             for_arns env denylist (arn # rest) st = for_arns env denylist rest st'))
   \<and> filter_ssm_documents (scenario three_lines demo_client no_credentials_get_document None)
        DEFAULT_INPUT_FILENAME DEFAULT_OUTPUT_FILENAME denylist =
       \<lparr>outcome = Returned True, written = Some [],
        run_trace = starting DEFAULT_INPUT_FILENAME DEFAULT_OUTPUT_FILENAME denylist @
          [Log DEBUG (Processing_ARN ''not-an-arn''), Log WARNING (Could_not_parse_ARN ''not-an-arn''),
           Log DEBUG (Processing_ARN my_doc_arn), Log DEBUG (Initializing_client ''us-east-1''),
           Call_boto3_client ''us-east-1'', Call_get_document (SSM_Client ''us-east-1'') ''MyDoc'',
           Log ERROR (Unexpected_fetch_error ''MyDoc'' NoCredentialsError),
           Log DEBUG (Processing_ARN new_doc_arn),
           Call_get_document (SSM_Client ''us-east-1'') ''NewDoc'',
           Log ERROR (Unexpected_fetch_error ''NewDoc'' NoCredentialsError),
           Log INFO Filtering_complete, Log INFO (Processed_documents 3), Log INFO (Found_documents 0),
           Log INFO (List_saved DEFAULT_OUTPUT_FILENAME)]\<rparr>"
proof (intro conjI impI)
  assume a: "cache_ok env (ssm_clients st) \<and> arn_target arn = Some (region, doc_name) \<and>
      boto3_client env region = Inr client \<and> get_document env client doc_name = Inl e \<and>
      is_credentials_error e"
  then show "get_document_content env client doc_name =
        (JNull, [Call_get_document client doc_name, Log ERROR (Unexpected_fetch_error doc_name e)])"
    by (intro get_document_content_credentials) simp_all
  from a have t: "arn_target arn = Some (region, doc_name)"
    and c: "boto3_client env region = Inr client"
    and g: "get_document env client doc_name = Inl e"
    by simp_all
  have "item_result env denylist arn = Fetch_failed e"
    using t c g by (rule item_result_fetch_failed)
  then have "per_item_failure (item_result env denylist arn)" by simp
  with a show "\<exists>st'. loop_body env denylist arn st = Continue st' \<and> filtered_arns st' = filtered_arns st \<and>
             for_arns env denylist (arn # rest) st = for_arns env denylist rest st'"
    by (intro loop_body_skip) simp_all
next
  show "filter_ssm_documents (scenario three_lines demo_client no_credentials_get_document None)
        DEFAULT_INPUT_FILENAME DEFAULT_OUTPUT_FILENAME denylist =
       \<lparr>outcome = Returned True, written = Some [],
        run_trace = starting DEFAULT_INPUT_FILENAME DEFAULT_OUTPUT_FILENAME denylist @
          [Log DEBUG (Processing_ARN ''not-an-arn''), Log WARNING (Could_not_parse_ARN ''not-an-arn''),
           Log DEBUG (Processing_ARN my_doc_arn), Log DEBUG (Initializing_client ''us-east-1''),
           Call_boto3_client ''us-east-1'', Call_get_document (SSM_Client ''us-east-1'') ''MyDoc'',
           Log ERROR (Unexpected_fetch_error ''MyDoc'' NoCredentialsError),
           Log DEBUG (Processing_ARN new_doc_arn),
           Call_get_document (SSM_Client ''us-east-1'') ''NewDoc'',
           Log ERROR (Unexpected_fetch_error ''NewDoc'' NoCredentialsError),
           Log INFO Filtering_complete, Log INFO (Processed_documents 3), Log INFO (Found_documents 0),
           Log INFO (List_saved DEFAULT_OUTPUT_FILENAME)]\<rparr>"
    by (simp add: filter_ssm_documents_def DEFAULT_INPUT_FILENAME_def arns_to_process_three
        loop_body_malformed loop_body_target[OF arn_target_demo(1)] loop_body_target[OF arn_target_demo(2)]
        try_client_def classify_document_def get_document_content_def
        demo_client_def no_credentials_get_document_def emit_def entered_def write_filtered_def
        output_text_def)
qed

theorem credentials_failure_at_fetch_is_skipped_witness:
  "cache_ok (scenario three_lines demo_client no_credentials_get_document None)
      (ssm_clients (initial_state []))
   \<and> arn_target my_doc_arn = Some (''us-east-1'', ''MyDoc'')
   \<and> boto3_client (scenario three_lines demo_client no_credentials_get_document None) ''us-east-1'' =
       Inr (SSM_Client ''us-east-1'')
   \<and> get_document (scenario three_lines demo_client no_credentials_get_document None)
       (SSM_Client ''us-east-1'') ''MyDoc'' = Inl NoCredentialsError
   \<and> is_credentials_error NoCredentialsError
   \<and> get_document_content (scenario three_lines demo_client no_credentials_get_document None)
       (SSM_Client ''us-east-1'') ''MyDoc'' =
       (JNull, [Call_get_document (SSM_Client ''us-east-1'') ''MyDoc'',
                Log ERROR (Unexpected_fetch_error ''MyDoc'' NoCredentialsError)])
   \<and> (\<exists>st'. loop_body (scenario three_lines demo_client no_credentials_get_document None)
               DEFAULT_OLD_RUNTIMES my_doc_arn (initial_state []) = Continue st' \<and>
             filtered_arns st' = filtered_arns (initial_state []) \<and>
             for_arns (scenario three_lines demo_client no_credentials_get_document None)
               DEFAULT_OLD_RUNTIMES (my_doc_arn # [new_doc_arn]) (initial_state []) =
             for_arns (scenario three_lines demo_client no_credentials_get_document None)
               DEFAULT_OLD_RUNTIMES [new_doc_arn] st')
   \<and> outcome (filter_ssm_documents (scenario three_lines demo_client no_credentials_get_document None)
        DEFAULT_INPUT_FILENAME DEFAULT_OUTPUT_FILENAME DEFAULT_OLD_RUNTIMES) = Returned True
   \<and> written (filter_ssm_documents (scenario three_lines demo_client no_credentials_get_document None)
        DEFAULT_INPUT_FILENAME DEFAULT_OUTPUT_FILENAME DEFAULT_OLD_RUNTIMES) = Some []
   \<and> outcome (filter_ssm_documents (scenario three_lines no_credentials_client demo_get_document None)
        DEFAULT_INPUT_FILENAME DEFAULT_OUTPUT_FILENAME DEFAULT_OLD_RUNTIMES) = Returned False"
proof -
  let ?env = "scenario three_lines demo_client no_credentials_get_document None"
  have h: "cache_ok ?env (ssm_clients (initial_state []))"
    "arn_target my_doc_arn = Some (''us-east-1'', ''MyDoc'')"
    "boto3_client ?env ''us-east-1'' = Inr (SSM_Client ''us-east-1'')"
    "get_document ?env (SSM_Client ''us-east-1'') ''MyDoc'' = Inl NoCredentialsError"
    "is_credentials_error NoCredentialsError"
    by (simp_all add: demo_client_def no_credentials_get_document_def)
  have sibling: "outcome (filter_ssm_documents (scenario three_lines no_credentials_client demo_get_document None)
        DEFAULT_INPUT_FILENAME DEFAULT_OUTPUT_FILENAME DEFAULT_OLD_RUNTIMES) = Returned False"
    by (simp add: run_no_credentials_client)
  note t = credentials_failure_at_fetch_is_skipped[of ?env "initial_state []" my_doc_arn "''us-east-1''"
      "''MyDoc''" "SSM_Client ''us-east-1''" NoCredentialsError DEFAULT_OLD_RUNTIMES "[new_doc_arn]"]
  from t have run: "filter_ssm_documents ?env DEFAULT_INPUT_FILENAME DEFAULT_OUTPUT_FILENAME DEFAULT_OLD_RUNTIMES =
       \<lparr>outcome = Returned True, written = Some [],
        run_trace = starting DEFAULT_INPUT_FILENAME DEFAULT_OUTPUT_FILENAME DEFAULT_OLD_RUNTIMES @
          [Log DEBUG (Processing_ARN ''not-an-arn''), Log WARNING (Could_not_parse_ARN ''not-an-arn''),
           Log DEBUG (Processing_ARN my_doc_arn), Log DEBUG (Initializing_client ''us-east-1''),
           Call_boto3_client ''us-east-1'', Call_get_document (SSM_Client ''us-east-1'') ''MyDoc'',
           Log ERROR (Unexpected_fetch_error ''MyDoc'' NoCredentialsError),
           Log DEBUG (Processing_ARN new_doc_arn),
           Call_get_document (SSM_Client ''us-east-1'') ''NewDoc'',
           Log ERROR (Unexpected_fetch_error ''NewDoc'' NoCredentialsError),
           Log INFO Filtering_complete, Log INFO (Processed_documents 3), Log INFO (Found_documents 0),
           Log INFO (List_saved DEFAULT_OUTPUT_FILENAME)]\<rparr>"
    by (rule conjunct2)
  have o: "outcome (filter_ssm_documents ?env DEFAULT_INPUT_FILENAME DEFAULT_OUTPUT_FILENAME
             DEFAULT_OLD_RUNTIMES) = Returned True"
    "written (filter_ssm_documents ?env DEFAULT_INPUT_FILENAME DEFAULT_OUTPUT_FILENAME
             DEFAULT_OLD_RUNTIMES) = Some []"
    unfolding run by simp_all
  from t h have "get_document_content ?env (SSM_Client ''us-east-1'') ''MyDoc'' =
       (JNull, [Call_get_document (SSM_Client ''us-east-1'') ''MyDoc'',
                Log ERROR (Unexpected_fetch_error ''MyDoc'' NoCredentialsError)]) \<and>
     (\<exists>st'. loop_body ?env DEFAULT_OLD_RUNTIMES my_doc_arn (initial_state []) = Continue st' \<and>
             filtered_arns st' = filtered_arns (initial_state []) \<and>
             for_arns ?env DEFAULT_OLD_RUNTIMES (my_doc_arn # [new_doc_arn]) (initial_state []) =
             for_arns ?env DEFAULT_OLD_RUNTIMES [new_doc_arn] st')"
    by blast
  with h o sibling show ?thesis by blast
qed

text \<open>
  The exception of the classifier in a run: \<open>filter_ssm_documents\<close> calls the
  classifier outside any \<open>try\<close>, so a document whose \<open>mainSteps\<close> is \<open>null\<close> ends the
  run with \<open>TypeError\<close>; the lines after it are not processed and no output file is
  written.
\<close>

lemma run_raises_on_null_mainSteps:
  "filter_ssm_documents (scenario three_lines demo_client null_steps_get_document None)
      DEFAULT_INPUT_FILENAME DEFAULT_OUTPUT_FILENAME DEFAULT_OLD_RUNTIMES =
     \<lparr>outcome = Raised TypeError, written = None,
      run_trace = starting DEFAULT_INPUT_FILENAME DEFAULT_OUTPUT_FILENAME DEFAULT_OLD_RUNTIMES @
        [Log DEBUG (Processing_ARN ''not-an-arn''), Log WARNING (Could_not_parse_ARN ''not-an-arn''),
         Log DEBUG (Processing_ARN my_doc_arn), Log DEBUG (Initializing_client ''us-east-1''),
         Call_boto3_client ''us-east-1'', Call_get_document (SSM_Client ''us-east-1'') ''MyDoc'']\<rparr>"
  by (simp add: filter_ssm_documents_def DEFAULT_INPUT_FILENAME_def arns_to_process_three
        loop_body_malformed loop_body_target[OF arn_target_demo(1)]
        try_client_def classify_document_def get_document_content_def
        demo_client_def null_steps_get_document_def demo_loads_def null_steps_body_def
        script_document_body_def quoted_def has_outdated_python_runtime_def dict_get_default_def
        emit_def entered_def)

section \<open>Determinism\<close>

lemma get_document_content_cong:
  "get_document env1 c n = get_document env2 c n \<Longrightarrow> json_loads env1 = json_loads env2 \<Longrightarrow>
   get_document_content env1 c n = get_document_content env2 c n"
  by (simp add: get_document_content_def split: sum.split option.split)

lemma classify_document_cong:
  "ssm_clients st r = Some c \<Longrightarrow> get_document_content env1 c n = get_document_content env2 c n \<Longrightarrow>
   classify_document env1 dl arn r n st = classify_document env2 dl arn r n st"
  by (simp add: classify_document_def)

lemma try_client_cong:
  "boto3_client env1 r = boto3_client env2 r \<Longrightarrow> try_client env1 r st = try_client env2 r st"
  by (simp add: try_client_def)

lemma try_client_Inr:
  assumes "cache_ok env (ssm_clients st)" "try_client env r st = Inr st1"
  shows "\<exists>c. ssm_clients st1 r = Some c \<and> boto3_client env r = Inr c"
proof (cases "ssm_clients st r")
  case None
  then show ?thesis using assms(2) by (cases "boto3_client env r") (auto simp: try_client_def)
next
  case (Some c)
  then show ?thesis using assms by (auto simp: try_client_def cache_ok_def)
qed

lemma loop_body_cong:
  assumes "cache_ok env1 (ssm_clients st)" "same_answers env1 env2 arn" "json_loads env1 = json_loads env2"
  shows "loop_body env1 dl arn st = loop_body env2 dl arn st"
proof (cases "arn_target arn")
  case None
  then show ?thesis by (simp add: loop_body_malformed)
next
  case (Some t)
  obtain r n where t: "t = (r, n)" by (cases t)
  have b: "boto3_client env1 r = boto3_client env2 r"
    using assms(2) Some t by (simp add: same_answers_def)
  have tc: "try_client env1 r (entered arn st) = try_client env2 r (entered arn st)"
    using b by (rule try_client_cong)
  show ?thesis
  proof (cases "try_client env1 r (entered arn st)")
    case (Inl p)
    moreover from Inl tc have "try_client env2 r (entered arn st) = Inl p" by simp
    ultimately show ?thesis using Some t by (simp add: loop_body_target)
  next
    case (Inr st1)
    have "cache_ok env1 (ssm_clients (entered arn st))" using assms(1) by simp
    from try_client_Inr[OF this Inr] obtain c where c: "ssm_clients st1 r = Some c"
      "boto3_client env1 r = Inr c" by blast
    have "get_document env1 c n = get_document env2 c n"
      using assms(2) Some t c(2) by (simp add: same_answers_def)
    then have "classify_document env1 dl arn r n st1 = classify_document env2 dl arn r n st1"
      using c(1) assms(3) by (intro classify_document_cong get_document_content_cong)
    moreover from Inr tc have "try_client env2 r (entered arn st) = Inr st1" by simp
    ultimately show ?thesis using Inr Some t by (simp add: loop_body_target)
  qed
qed

lemma for_arns_cong:
  assumes "cache_ok env1 (ssm_clients st)" "\<forall>arn\<in>set arns. same_answers env1 env2 arn"
    "json_loads env1 = json_loads env2"
  shows "for_arns env1 dl arns st = for_arns env2 dl arns st"
  using assms(1,2)
proof (induction arns arbitrary: st)
  case Nil
  then show ?case by simp
next
  case (Cons a as)
  have lb: "loop_body env1 dl a st = loop_body env2 dl a st"
    using Cons.prems assms(3) by (intro loop_body_cong) auto
  show ?case
  proof (cases "loop_body env1 dl a st")
    case (Continue st1)
    have "cache_ok env1 (ssm_clients st1)"
      using loop_body_cache_ok[OF Cons.prems(1), of dl a] Continue by simp
    then have "for_arns env1 dl as st1 = for_arns env2 dl as st1"
      using Cons.IH Cons.prems(2) by simp
    moreover from lb Continue have "loop_body env2 dl a st = Continue st1" by simp
    ultimately show ?thesis using Continue by simp
  next
    case (Return b st1)
    moreover from lb Return have "loop_body env2 dl a st = Return b st1" by simp
    ultimately show ?thesis by simp
  next
    case (Raise e st1)
    moreover from lb Raise have "loop_body env2 dl a st = Raise e st1" by simp
    ultimately show ?thesis by simp
  qed
qed

text \<open>
  Claim C8. Two runs on the same input file name, output file name and denylist are
  the same run (same value returned, same text written to the output file, same
  events) when their environments agree on what the run can observe: the availability
  of \<open>boto3\<close>, the lines of the input file, the behaviour of the output file,
  \<open>json.loads\<close>, and the answers of the remote service for the regions and documents
  that the input lines name. What the remote service would answer for any other region
  or document has no influence.
\<close>

theorem runs_are_deterministic:
  assumes "BOTO3_AVAILABLE env1 = BOTO3_AVAILABLE env2"
    and "read_lines env1 input_file = read_lines env2 input_file"
    and "write_text env1 output_file = write_text env2 output_file"
    and "json_loads env1 = json_loads env2"
    and "\<forall>lines. read_lines env1 input_file = Inr lines \<longrightarrow>
           (\<forall>arn\<in>set (arns_to_process lines). same_answers env1 env2 arn)"
  shows "filter_ssm_documents env1 input_file output_file denylist =
         filter_ssm_documents env2 input_file output_file denylist"
proof (cases "BOTO3_AVAILABLE env1")
  case False
  moreover from False assms(1) have "\<not> BOTO3_AVAILABLE env2" by simp
  ultimately show ?thesis by (simp add: filter_ssm_documents_def)
next
  case True
  from True assms(1) have b2: "BOTO3_AVAILABLE env2" by simp
  show ?thesis
  proof (cases "read_lines env1 input_file")
    case (Inl e)
    moreover from Inl assms(2) have "read_lines env2 input_file = Inl e" by simp
    ultimately show ?thesis using True b2 by (simp add: filter_ssm_documents_def)
  next
    case (Inr lines)
    from Inr assms(2) have r2: "read_lines env2 input_file = Inr lines" by simp
    let ?st0 = "\<lparr>filtered_arns = [], processed_count = 0, found_count = 0, ssm_clients = Map.empty,
                trace = starting input_file output_file denylist\<rparr>"
    have loop: "for_arns env1 denylist (arns_to_process lines) ?st0 =
          for_arns env2 denylist (arns_to_process lines) ?st0"
      using assms(4,5) Inr by (intro for_arns_cong) simp_all
    have wf: "write_filtered env1 output_file st = write_filtered env2 output_file st" for st
      using assms(3) by (simp add: write_filtered_def)
    have we: "write_empty env1 output_file tr = write_empty env2 output_file tr" for tr
      using assms(3) by (simp add: write_empty_def)
    have "filter_ssm_documents env1 input_file output_file denylist =
          (if arns_to_process lines = []
           then write_empty env2 output_file
                  (starting input_file output_file denylist @ [Log INFO Input_file_is_empty])
           else (case for_arns env2 denylist (arns_to_process lines) ?st0 of
                   Continue st \<Rightarrow> write_filtered env2 output_file st
                 | Return b st \<Rightarrow> \<lparr>outcome = Returned b, written = None, run_trace = trace st\<rparr>
                 | Raise e st \<Rightarrow> \<lparr>outcome = Raised e, written = None, run_trace = trace st\<rparr>))"
      unfolding filter_ssm_documents_def using True Inr
      by (simp add: we loop wf cong: control.case_cong)
    also have "\<dots> = filter_ssm_documents env2 input_file output_file denylist"
      unfolding filter_ssm_documents_def using b2 r2 by simp
    finally show ?thesis .
  qed
qed

theorem runs_are_deterministic_witness:
  "BOTO3_AVAILABLE demo_env = BOTO3_AVAILABLE other_env
   \<and> read_lines demo_env DEFAULT_INPUT_FILENAME = read_lines other_env DEFAULT_INPUT_FILENAME
   \<and> write_text demo_env DEFAULT_OUTPUT_FILENAME = write_text other_env DEFAULT_OUTPUT_FILENAME
   \<and> json_loads demo_env = json_loads other_env
   \<and> read_lines demo_env DEFAULT_INPUT_FILENAME = Inr demo_lines
   \<and> same_answers demo_env other_env my_doc_arn
   \<and> same_answers demo_env other_env ''not-an-arn''
   \<and> same_answers demo_env other_env new_doc_arn
   \<and> same_answers demo_env other_env eu_doc_arn
   \<and> same_answers demo_env other_env missing_doc_arn
   \<and> same_answers demo_env other_env broken_doc_arn
   \<and> boto3_client demo_env ''ap-south-1'' \<noteq> boto3_client other_env ''ap-south-1''
   \<and> filter_ssm_documents demo_env DEFAULT_INPUT_FILENAME DEFAULT_OUTPUT_FILENAME DEFAULT_OLD_RUNTIMES =
       filter_ssm_documents other_env DEFAULT_INPUT_FILENAME DEFAULT_OUTPUT_FILENAME DEFAULT_OLD_RUNTIMES"
proof -
  have h: "BOTO3_AVAILABLE demo_env = BOTO3_AVAILABLE other_env"
    "read_lines demo_env DEFAULT_INPUT_FILENAME = read_lines other_env DEFAULT_INPUT_FILENAME"
    "write_text demo_env DEFAULT_OUTPUT_FILENAME = write_text other_env DEFAULT_OUTPUT_FILENAME"
    "json_loads demo_env = json_loads other_env"
    "read_lines demo_env DEFAULT_INPUT_FILENAME = Inr demo_lines"
    by (simp_all add: demo_env_def other_env_def DEFAULT_INPUT_FILENAME_def fun_eq_iff)
  have s: "same_answers demo_env other_env my_doc_arn"
    "same_answers demo_env other_env ''not-an-arn''"
    "same_answers demo_env other_env new_doc_arn"
    "same_answers demo_env other_env eu_doc_arn"
    "same_answers demo_env other_env missing_doc_arn"
    "same_answers demo_env other_env broken_doc_arn"
    by (simp_all add: same_answers_def demo_env_def other_env_def other_client_def
          other_get_document_def demo_client_def demo_get_document_def)
  have d: "boto3_client demo_env ''ap-south-1'' \<noteq> boto3_client other_env ''ap-south-1''"
    by (simp add: demo_env_def other_env_def other_client_def demo_client_def)
  have a: "\<forall>lines. read_lines demo_env DEFAULT_INPUT_FILENAME = Inr lines \<longrightarrow>
           (\<forall>arn\<in>set (arns_to_process lines). same_answers demo_env other_env arn)"
    using s h(5) by (auto simp: arns_to_process_demo)
  from runs_are_deterministic[OF h(1-4) a, of DEFAULT_OLD_RUNTIMES] h s d show ?thesis by simp
qed

section \<open>The client cache\<close>

lemma constructions_simps [simp]:
  "constructions r [] = 0"
  "constructions r (tr @ tr') = constructions r tr + constructions r tr'"
  "constructions r (Log lvl msg # tr) = constructions r tr"
  "constructions r (Call_get_document c n # tr) = constructions r tr"
  "constructions r (Call_boto3_client r' # tr) = (if r' = r then 1 else 0) + constructions r tr"
  by (simp_all add: constructions_def)

lemma constructions_remote_calls: "constructions r (remote_calls tr) = constructions r tr"
proof (induction tr)
  case Nil
  then show ?case by simp
next
  case (Cons e tr)
  then show ?case by (cases e) simp_all
qed

lemma constructions_item_success:
  assumes "boto3_client env r = Inr c"
  shows "constructions r (item_calls env cache a) + cached (cache r) = cached (item_cache env cache a r)"
proof (cases "arn_target a")
  case None
  then show ?thesis by (simp add: item_calls_def item_cache_def)
next
  case (Some t)
  obtain r' n where t: "t = (r', n)" by (cases t)
  show ?thesis
  proof (cases "cache r'")
    case None
    then show ?thesis using Some t assms
      by (cases "boto3_client env r'") (auto simp: item_calls_def item_cache_def)
  next
    case (Some c')
    then show ?thesis using \<open>arn_target a = Some t\<close> t by (simp add: item_calls_def item_cache_def)
  qed
qed

lemma constructions_item_failure:
  assumes "boto3_client env r = Inl e" "cache_ok env cache"
  shows "constructions r (item_calls env cache a) = (if arn_region a = Some r then 1 else 0)"
proof -
  have u: "cache r = None" using assms by (cases "cache r") (auto simp: cache_ok_def)
  show ?thesis
  proof (cases "arn_target a")
    case None
    then show ?thesis by (simp add: item_calls_def arn_region_def)
  next
    case (Some t)
    obtain r' n where t: "t = (r', n)" by (cases t)
    show ?thesis
    proof (cases "cache r'")
      case None
      then show ?thesis using Some t assms(1)
        by (cases "boto3_client env r'") (auto simp: item_calls_def arn_region_def)
    next
      case (Some c')
      then have "r' \<noteq> r" using u by auto
      then show ?thesis using \<open>arn_target a = Some t\<close> t Some by (simp add: item_calls_def arn_region_def)
    qed
  qed
qed

lemma item_cache_region:
  assumes "boto3_client env r = Inr c"
  shows "item_cache env cache a r \<noteq> None \<longleftrightarrow> cache r \<noteq> None \<or> arn_region a = Some r"
proof (cases "arn_target a")
  case None
  then show ?thesis by (simp add: item_cache_def arn_region_def)
next
  case (Some t)
  obtain r' n where t: "t = (r', n)" by (cases t)
  show ?thesis
  proof (cases "cache r'")
    case None
    then show ?thesis using Some t assms
      by (cases "boto3_client env r'") (auto simp: item_cache_def arn_region_def)
  next
    case (Some c')
    then show ?thesis using \<open>arn_target a = Some t\<close> t by (auto simp: item_cache_def arn_region_def)
  qed
qed

lemma loop_body_constructions:
  assumes "cache_ok env (ssm_clients st)"
  shows "constructions r (trace (state_of (loop_body env dl a st))) =
           constructions r (trace st) + constructions r (item_calls env (ssm_clients st) a)"
proof -
  have "constructions r (remote_calls (trace (state_of (loop_body env dl a st)))) =
          constructions r (remote_calls (trace st) @ item_calls env (ssm_clients st) a)"
    by (simp only: loop_body_calls[OF assms])
  then show ?thesis by (simp add: constructions_remote_calls)
qed

lemma for_arns_built_once:
  assumes "boto3_client env r = Inr c" "cache_ok env (ssm_clients st)"
    "constructions r (trace st) = cached (ssm_clients st r)"
  shows "constructions r (trace (state_of (for_arns env dl arns st))) =
           cached (ssm_clients (state_of (for_arns env dl arns st)) r)"
proof -
  let ?P = "\<lambda>st::loop_state. constructions r (trace st) = cached (ssm_clients st r)"
  have "?P (state_of (for_arns env dl arns st)) \<and>
        cache_ok env (ssm_clients (state_of (for_arns env dl arns st)))"
  proof (rule for_arns_invariant[where P = ?P, OF assms(2,3)])
    fix a and st :: loop_state
    assume c: "cache_ok env (ssm_clients st)" and p: "constructions r (trace st) = cached (ssm_clients st r)"
    show "constructions r (trace (state_of (loop_body env dl a st))) =
            cached (ssm_clients (state_of (loop_body env dl a st)) r)"
      using loop_body_constructions[OF c, of r dl a] loop_body_cache[OF c, of dl a] p
        constructions_item_success[OF assms(1), of "ssm_clients st" a]
      by simp
  qed
  then show ?thesis by simp
qed

lemma for_arns_completed:
  assumes "cache_ok env (ssm_clients st)" "for_arns env dl arns st = Continue st'"
  shows "(boto3_client env r = Inr c \<longrightarrow>
            (ssm_clients st' r \<noteq> None \<longleftrightarrow> ssm_clients st r \<noteq> None \<or> (\<exists>a\<in>set arns. arn_region a = Some r)))
       \<and> (boto3_client env r = Inl e \<longrightarrow>
            constructions r (trace st') =
              constructions r (trace st) + length (filter (\<lambda>a. arn_region a = Some r) arns))"
  using assms
proof (induction arns arbitrary: st)
  case Nil
  then show ?case by simp
next
  case (Cons a as)
  from Cons.prems(2) obtain st1 where lb: "loop_body env dl a st = Continue st1"
    and rest: "for_arns env dl as st1 = Continue st'"
    by (auto split: control.splits)
  have c1: "cache_ok env (ssm_clients st1)"
    using loop_body_cache_ok[OF Cons.prems(1), of dl a] lb by simp
  have cache1: "ssm_clients st1 = item_cache env (ssm_clients st) a"
    using loop_body_cache[OF Cons.prems(1), of dl a] lb by simp
  have con1: "constructions r (trace st1) =
      constructions r (trace st) + constructions r (item_calls env (ssm_clients st) a)"
    using loop_body_constructions[OF Cons.prems(1), of r dl a] lb by simp
  note IH = Cons.IH[OF c1 rest]
  show ?case
  proof (intro conjI impI)
    assume b: "boto3_client env r = Inr c"
    show "ssm_clients st' r \<noteq> None \<longleftrightarrow>
            ssm_clients st r \<noteq> None \<or> (\<exists>a\<in>set (a # as). arn_region a = Some r)"
      using IH b cache1 item_cache_region[OF b, of "ssm_clients st" a] by auto
  next
    assume b: "boto3_client env r = Inl e"
    show "constructions r (trace st') =
            constructions r (trace st) + length (filter (\<lambda>a. arn_region a = Some r) (a # as))"
      using IH b con1 constructions_item_failure[OF b Cons.prems(1), of a] by simp
  qed
qed

lemma constructions_no_calls: "remote_calls tr = [] \<Longrightarrow> constructions r tr = 0"
  using constructions_remote_calls[of r tr] by simp

lemma run_constructions_loop:
  assumes "filter_ssm_documents env inp outp dl =
       finish env outp (for_arns env dl arns (initial_state (starting inp outp dl)))"
  shows "constructions r (run_trace (filter_ssm_documents env inp outp dl)) =
           constructions r (trace (state_of (for_arns env dl arns (initial_state (starting inp outp dl)))))"
proof -
  let ?c = "for_arns env dl arns (initial_state (starting inp outp dl))"
  have "constructions r (remote_calls (run_trace (finish env outp ?c))) =
        constructions r (remote_calls (trace (state_of ?c)))"
    by (simp only: finish_calls)
  then show ?thesis using assms by (simp add: constructions_remote_calls)
qed

lemma constructions_starting [simp]: "constructions r (starting inp outp dl) = 0"
  by (simp add: starting_def)

lemma run_built_at_most_once:
  assumes "boto3_client env r = Inr c"
  shows "constructions r (run_trace (filter_ssm_documents env inp outp dl)) \<le> 1"
proof (cases rule: run_cases[of env inp outp dl])
  case unavailable
  then show ?thesis by simp
next
  case (unreadable e)
  then show ?thesis by (simp add: constructions_no_calls)
next
  case (empty lines)
  then show ?thesis by (simp add: constructions_no_calls write_empty_facts(1))
next
  case (loop lines)
  let ?st0 = "initial_state (starting inp outp dl)"
  have "constructions r (trace (state_of (for_arns env dl (arns_to_process lines) ?st0))) =
          cached (ssm_clients (state_of (for_arns env dl (arns_to_process lines) ?st0)) r)"
    using assms by (intro for_arns_built_once) simp_all
  moreover have "cached x \<le> 1" for x by (cases x) simp_all
  ultimately show ?thesis using run_constructions_loop[OF loop(4), of r] by simp
qed

lemma run_completed_constructions:
  assumes "read_lines env inp = Inr lines" "written (filter_ssm_documents env inp outp dl) = Some out"
  shows "(boto3_client env r = Inr c \<longrightarrow>
            constructions r (run_trace (filter_ssm_documents env inp outp dl)) =
              (if \<exists>a\<in>set (arns_to_process lines). arn_region a = Some r then 1 else 0))
       \<and> (boto3_client env r = Inl e \<longrightarrow>
            constructions r (run_trace (filter_ssm_documents env inp outp dl)) =
              length (filter (\<lambda>a. arn_region a = Some r) (arns_to_process lines)))"
proof (cases rule: run_cases[of env inp outp dl])
  case unavailable
  then show ?thesis using assms(2) by simp
next
  case (unreadable x)
  then show ?thesis using assms(2) by simp
next
  case (empty ls)
  then have "arns_to_process lines = []" using assms(1) by simp
  then show ?thesis using empty by (simp add: constructions_no_calls write_empty_facts(1))
next
  case (loop ls)
  then have ls: "ls = lines" using assms(1) by simp
  let ?st0 = "initial_state (starting inp outp dl)"
  let ?c = "for_arns env dl (arns_to_process lines) ?st0"
  note run = loop(4)[unfolded ls]
  obtain st' where c: "?c = Continue st'"
    using assms(2) run by (cases ?c) (simp_all add: finish_def)
  note fin = for_arns_completed[OF _ c, of r c e, simplified]
  note once = for_arns_built_once[of env r c ?st0 dl "arns_to_process lines", simplified]
  have tr: "constructions r (run_trace (filter_ssm_documents env inp outp dl)) = constructions r (trace st')"
    using run_constructions_loop[OF run, of r] c by simp
  show ?thesis
  proof (intro conjI impI)
    assume b: "boto3_client env r = Inr c"
    have "constructions r (trace st') = cached (ssm_clients st' r)" using once[OF b] c by simp
    moreover have "ssm_clients st' r \<noteq> None \<longleftrightarrow> (\<exists>a\<in>set (arns_to_process lines). arn_region a = Some r)"
      using fin b by simp
    ultimately show "constructions r (run_trace (filter_ssm_documents env inp outp dl)) =
              (if \<exists>a\<in>set (arns_to_process lines). arn_region a = Some r then 1 else 0)"
      using tr by (cases "ssm_clients st' r") auto
  next
    assume b: "boto3_client env r = Inl e"
    then show "constructions r (run_trace (filter_ssm_documents env inp outp dl)) =
              length (filter (\<lambda>a. arn_region a = Some r) (arns_to_process lines))"
      using fin tr by simp
  qed
qed

text \<open>
  Claim C9. An iteration started with a consistent cache leaves a consistent cache,
  which is the cache before plus, when the region of the line was not cached and its
  client could be built, that client; and its remote calls are a construction only
  when the region was not cached, followed by the fetch with the client of the region
  when there is one. Over a run, the client of a region whose construction succeeds is
  constructed at most once, and exactly once in a run that completes and has a line of
  that region, however many lines name it. A region whose construction fails is never
  cached: in a run that completes, its construction is attempted once for every line
  of that region.
\<close>

theorem client_cache_discipline:
  "(cache_ok env (ssm_clients st) \<longrightarrow>
      cache_ok env (ssm_clients (state_of (loop_body env denylist arn st))) \<and>
      ssm_clients (state_of (loop_body env denylist arn st)) = item_cache env (ssm_clients st) arn \<and>
      remote_calls (trace (state_of (loop_body env denylist arn st))) =
        remote_calls (trace st) @ item_calls env (ssm_clients st) arn)
   \<and> (\<forall>client. boto3_client env region = Inr client \<longrightarrow>
         constructions region (run_trace (filter_ssm_documents env input_file output_file denylist)) \<le> 1)
   \<and> (\<forall>client lines out. boto3_client env region = Inr client \<and> read_lines env input_file = Inr lines \<and>
         written (filter_ssm_documents env input_file output_file denylist) = Some out \<longrightarrow>
         constructions region (run_trace (filter_ssm_documents env input_file output_file denylist)) =
           (if \<exists>a\<in>set (arns_to_process lines). arn_region a = Some region then 1 else 0))
   \<and> (\<forall>e lines out. boto3_client env region = Inl e \<and> read_lines env input_file = Inr lines \<and>
         written (filter_ssm_documents env input_file output_file denylist) = Some out \<longrightarrow>
         constructions region (run_trace (filter_ssm_documents env input_file output_file denylist)) =
           length (filter (\<lambda>a. arn_region a = Some region) (arns_to_process lines)))"
proof (intro conjI impI allI)
  assume c: "cache_ok env (ssm_clients st)"
  show "cache_ok env (ssm_clients (state_of (loop_body env denylist arn st)))"
    using c by (rule loop_body_cache_ok)
  show "ssm_clients (state_of (loop_body env denylist arn st)) = item_cache env (ssm_clients st) arn"
    using c by (rule loop_body_cache)
  show "remote_calls (trace (state_of (loop_body env denylist arn st))) =
        remote_calls (trace st) @ item_calls env (ssm_clients st) arn"
    using c by (rule loop_body_calls)
next
  fix client
  assume "boto3_client env region = Inr client"
  then show "constructions region (run_trace (filter_ssm_documents env input_file output_file denylist)) \<le> 1"
    by (rule run_built_at_most_once)
next
  fix client lines out
  assume "boto3_client env region = Inr client \<and> read_lines env input_file = Inr lines \<and>
         written (filter_ssm_documents env input_file output_file denylist) = Some out"
  then show "constructions region (run_trace (filter_ssm_documents env input_file output_file denylist)) =
           (if \<exists>a\<in>set (arns_to_process lines). arn_region a = Some region then 1 else 0)"
    using run_completed_constructions[of env input_file lines output_file denylist out region client]
    by blast
next
  fix e lines out
  assume "boto3_client env region = Inl e \<and> read_lines env input_file = Inr lines \<and>
         written (filter_ssm_documents env input_file output_file denylist) = Some out"
  then show "constructions region (run_trace (filter_ssm_documents env input_file output_file denylist)) =
           length (filter (\<lambda>a. arn_region a = Some region) (arns_to_process lines))"
    using run_completed_constructions[of env input_file lines output_file denylist out region _ e]
    by blast
qed

lemma demo_run_written:
  "written (filter_ssm_documents demo_env DEFAULT_INPUT_FILENAME DEFAULT_OUTPUT_FILENAME DEFAULT_OLD_RUNTIMES) =
     Some (output_text [my_doc_arn, my_doc_arn])"
  using run_completes(2)[of demo_env DEFAULT_INPUT_FILENAME demo_lines DEFAULT_OLD_RUNTIMES DEFAULT_OUTPUT_FILENAME]
    demo_no_stop[of demo_lines None] demo_outdated[of demo_lines None]
  by (simp add: demo_env_def DEFAULT_INPUT_FILENAME_def)

lemma arn_region_demo:
  "arn_region my_doc_arn = Some ''us-east-1''"
  "arn_region new_doc_arn = Some ''us-east-1''"
  "arn_region eu_doc_arn = Some ''eu-west-1''"
  "arn_region missing_doc_arn = Some ''us-east-1''"
  "arn_region broken_doc_arn = Some ''us-west-2''"
  "arn_region ''not-an-arn'' = None"
  by (simp_all add: arn_region_def)

theorem client_cache_discipline_witness:
  "boto3_client demo_env ''us-east-1'' = Inr (SSM_Client ''us-east-1'')
   \<and> boto3_client demo_env ''eu-west-1'' = Inl (ClientError ''EndpointConnectionError'')
   \<and> read_lines demo_env DEFAULT_INPUT_FILENAME = Inr demo_lines
   \<and> written (filter_ssm_documents demo_env DEFAULT_INPUT_FILENAME DEFAULT_OUTPUT_FILENAME DEFAULT_OLD_RUNTIMES) =
       Some (output_text [my_doc_arn, my_doc_arn])
   \<and> length (filter (\<lambda>a. arn_region a = Some ''us-east-1'') (arns_to_process demo_lines)) = 4
   \<and> constructions ''us-east-1''
        (run_trace (filter_ssm_documents demo_env DEFAULT_INPUT_FILENAME DEFAULT_OUTPUT_FILENAME DEFAULT_OLD_RUNTIMES)) = 1
   \<and> length (filter (\<lambda>a. arn_region a = Some ''eu-west-1'') (arns_to_process demo_lines)) = 2
   \<and> constructions ''eu-west-1''
        (run_trace (filter_ssm_documents demo_env DEFAULT_INPUT_FILENAME DEFAULT_OUTPUT_FILENAME DEFAULT_OLD_RUNTIMES)) = 2
   \<and> cache_ok demo_env (ssm_clients (initial_state []))
   \<and> ssm_clients (state_of (loop_body demo_env DEFAULT_OLD_RUNTIMES eu_doc_arn (initial_state []))) =
       Map.empty
   \<and> remote_calls (trace (state_of (loop_body demo_env DEFAULT_OLD_RUNTIMES eu_doc_arn (initial_state [])))) =
       [Call_boto3_client ''eu-west-1'']
   \<and> ssm_clients (state_of (loop_body demo_env DEFAULT_OLD_RUNTIMES my_doc_arn (initial_state []))) =
       [''us-east-1'' \<mapsto> SSM_Client ''us-east-1'']
   \<and> remote_calls (trace (state_of (loop_body demo_env DEFAULT_OLD_RUNTIMES my_doc_arn (initial_state [])))) =
       [Call_boto3_client ''us-east-1'', Call_get_document (SSM_Client ''us-east-1'') ''MyDoc'']"
proof -
  note t = client_cache_discipline[where env = demo_env and denylist = DEFAULT_OLD_RUNTIMES
      and input_file = DEFAULT_INPUT_FILENAME and output_file = DEFAULT_OUTPUT_FILENAME]
  have b: "boto3_client demo_env ''us-east-1'' = Inr (SSM_Client ''us-east-1'')"
    "boto3_client demo_env ''eu-west-1'' = Inl (ClientError ''EndpointConnectionError'')"
    "read_lines demo_env DEFAULT_INPUT_FILENAME = Inr demo_lines"
    by (simp_all add: demo_env_def demo_client_def DEFAULT_INPUT_FILENAME_def)
  note w = demo_run_written
  have n: "length (filter (\<lambda>a. arn_region a = Some ''us-east-1'') (arns_to_process demo_lines)) = 4"
    "length (filter (\<lambda>a. arn_region a = Some ''eu-west-1'') (arns_to_process demo_lines)) = 2"
    "\<exists>a\<in>set (arns_to_process demo_lines). arn_region a = Some ''us-east-1''"
    by (simp_all add: arns_to_process_demo arn_region_demo)
  have c: "cache_ok demo_env (ssm_clients (initial_state []))" by simp
  from t[where region = "''us-east-1''"] b w n
  have 1: "constructions ''us-east-1''
        (run_trace (filter_ssm_documents demo_env DEFAULT_INPUT_FILENAME DEFAULT_OUTPUT_FILENAME DEFAULT_OLD_RUNTIMES)) = 1"
    by simp
  from t[where region = "''eu-west-1''"] b w n
  have 2: "constructions ''eu-west-1''
        (run_trace (filter_ssm_documents demo_env DEFAULT_INPUT_FILENAME DEFAULT_OUTPUT_FILENAME DEFAULT_OLD_RUNTIMES)) = 2"
    by simp
  from t[where st = "initial_state []" and arn = eu_doc_arn] c
  have 3: "ssm_clients (state_of (loop_body demo_env DEFAULT_OLD_RUNTIMES eu_doc_arn (initial_state []))) =
       Map.empty"
    "remote_calls (trace (state_of (loop_body demo_env DEFAULT_OLD_RUNTIMES eu_doc_arn (initial_state [])))) =
       [Call_boto3_client ''eu-west-1'']"
    using b by (simp_all add: item_cache_def item_calls_def)
  from t[where st = "initial_state []" and arn = my_doc_arn] c
  have 4: "ssm_clients (state_of (loop_body demo_env DEFAULT_OLD_RUNTIMES my_doc_arn (initial_state []))) =
       [''us-east-1'' \<mapsto> SSM_Client ''us-east-1'']"
    "remote_calls (trace (state_of (loop_body demo_env DEFAULT_OLD_RUNTIMES my_doc_arn (initial_state [])))) =
       [Call_boto3_client ''us-east-1'', Call_get_document (SSM_Client ''us-east-1'') ''MyDoc'']"
    using b by (simp_all add: item_cache_def item_calls_def)
  from b w n(1,2) 1 2 c 3 4 show ?thesis by simp
qed

end
